theory Spec2Isabelle
  imports Main "HOL-Library.Word"
begin

unbundle bit_operations_syntax

section \<open>MTB-UNI v4 firmware: the protocol and coordination engine of main.c\<close>

text \<open>
  The development embeds the application layer of \<^verbatim>\<open>src/main.c\<close>: the command dispatcher
  \<^verbatim>\<open>mtbbus_received\<close> with its response routines, the speed autodetection, the button
  handlers, the initialization gate, and the parts of the timer interrupt and of the main loop
  that drive them. The C globals become the fields of one record, every C function becomes a
  function from state to state, and every call into a collaborator that is not part of main.c
  (transport, output driver, configuration store, watchdog) is appended to a call log kept in the
  state, so that the order of calls can be stated. A second log, the trace, holds the same calls
  together with the stores into the variables that the effects of the commands write, each at
  the place of its statement, so that the order of a call and a store can be stated too.
\<close>

type_synonym u8 = "8 word"
type_synonym u16 = "16 word"

subsection \<open>Constants of the headers\<close>

text \<open>
  The macros of \<^verbatim>\<open>lib/mtbbus.h\<close>, \<^verbatim>\<open>config.h\<close>, \<^verbatim>\<open>inputs.h\<close>, \<^verbatim>\<open>outputs.h\<close> and \<^verbatim>\<open>diag.h\<close>
  are used by main.c but their values are not part of it. They are parameters of the model: one
  record holds the request codes, one the response and error codes, one the diagnostic indices
  and one the remaining constants.
\<close>

record mosi_codes =
  MTBBUS_CMD_MOSI_MODULE_INQUIRY :: u8
  MTBBUS_CMD_MOSI_INFO_REQ :: u8
  MTBBUS_CMD_MOSI_SET_CONFIG :: u8
  MTBBUS_CMD_MOSI_GET_CONFIG :: u8
  MTBBUS_CMD_MOSI_BEACON :: u8
  MTBBUS_CMD_MOSI_GET_INPUT :: u8
  MTBBUS_CMD_MOSI_SET_OUTPUT :: u8
  MTBBUS_CMD_MOSI_RESET_OUTPUTS :: u8
  MTBBUS_CMD_MOSI_CHANGE_ADDR :: u8
  MTBBUS_CMD_MOSI_CHANGE_SPEED :: u8
  MTBBUS_CMD_MOSI_FWUPGD_REQUEST :: u8
  MTBBUS_CMD_MOSI_REBOOT :: u8
  MTBBUS_CMD_MOSI_DIAG_VALUE_REQ :: u8

record miso_codes =
  MTBBUS_CMD_MISO_ACK :: u8
  MTBBUS_CMD_MISO_ERROR :: u8
  MTBBUS_CMD_MISO_MODULE_INFO :: u8
  MTBBUS_CMD_MISO_MODULE_CONFIG :: u8
  MTBBUS_CMD_MISO_INPUT_CHANGED :: u8
  MTBBUS_CMD_MISO_INPUT_STATE :: u8
  MTBBUS_CMD_MISO_OUTPUT_SET :: u8
  MTBBUS_CMD_MISO_DIAG_VALUE :: u8
  MTBBUS_ERROR_UNKNOWN_COMMAND :: u8
  MTBBUS_ERROR_UNSUPPORTED_COMMAND :: u8

record dv_codes =
  MTBBUS_DV_VERSION :: u8
  MTBBUS_DV_STATE :: u8
  MTBBUS_DV_UPTIME :: u8
  MTBBUS_DV_WARNINGS :: u8
  MTBBUS_DV_VMCU :: u8
  MTBBUS_DV_MTBBUS_RECEIVED :: u8
  MTBBUS_DV_MTBBUS_BAD_CRC :: u8
  MTBBUS_DV_MTBBUS_SENT :: u8
  MTBBUS_DV_MTBBUS_UNSENT :: u8

record module_consts =
  MTBBUS_SPEED_38400 :: u8
  MTBBUS_SPEED_MAX :: u8
  NO_OUTPUTS :: nat
  NO_INPUTS :: nat
  CONFIG_MODULE_TYPE :: u8
  CONFIG_FW_MAJOR :: u8
  CONFIG_FW_MINOR :: u8
  CONFIG_PROTO_MAJOR :: u8
  CONFIG_PROTO_MINOR :: u8
  DIAG_UPDATE_PERIOD :: u8
  WARN_MISSED_TIMER :: u8

record headers =
  mosi :: mosi_codes
  miso :: miso_codes
  dv :: dv_codes
  module :: module_consts

text \<open>The macros main.c defines itself.\<close>

definition LED_GR_ON :: u8 where "LED_GR_ON = 5"
definition LED_RED_OK_ON :: u8 where "LED_RED_OK_ON = 40"
definition INIT_TIME :: u8 where "INIT_TIME = 50"
definition MTBBUS_TIMEOUT_MAX :: u8 where "MTBBUS_TIMEOUT_MAX = 100"
definition BTN_PRESS_1S :: u8 where "BTN_PRESS_1S = 100"
definition MTBBUS_AUTO_SPEED_TIMEOUT :: u8 where "MTBBUS_AUTO_SPEED_TIMEOUT = 20"

subsection \<open>State\<close>

text \<open>
  The calls into collaborators that the functions embedded here make, in the order in which
  they are made. The frame of \<open>Mtbbus_send_buf_autolen\<close> is the content of the output
  buffer at the moment of the call.
\<close>

datatype call =
    Mtbbus_send_buf_autolen "u8 list"
  | Mtbbus_set_speed u8
  | Outputs_set_zipped "u8 list"
  | Outputs_set_full "u8 list"
  | Config_boot_fwupgd
  | Config_int_wdrf bool
  | Wdt_enable_15MS

datatype on_sent = Goto_bootloader

text \<open>
  The variables whose stores the trace holds: the beacon flag, the two configuration tables,
  the configured speed, the flag \<^verbatim>\<open>config_write\<close>, the callback \<^verbatim>\<open>mtbbus_on_sent\<close> and the
  flag \<^verbatim>\<open>outputs_changed_when_setting_scom\<close>. Every assignment to one of them in the functions
  embedded here appends \<open>Store\<close> of the variable to the trace, and every call into a
  collaborator appends \<open>Call\<close> of the call.
\<close>

datatype var =
    Beacon
  | Config_safe_state
  | Config_inputs_delay
  | Config_mtbbus_speed
  | Config_write
  | Mtbbus_on_sent
  | Outputs_changed_when_setting_scom

datatype action = Call call | Store var

datatype btn_action = Short_press | Long_press

text \<open>
  The globals of main.c and the variables of its collaborators that main.c reads or writes.
  Not variables of main.c are: \<open>halted\<close> (set where control never returns),
  \<open>led_green\<close>, \<open>led_red\<close>, \<open>led_blue\<close> (the LEDs as \<^verbatim>\<open>io_led_*_on/off\<close> leave them),
  \<open>mtbbus_can_fill_output_buf\<close> (what the transport's function of that name returns),
  \<open>config_bootloader_version\<close> and \<open>io_addr_raw\<close> (what \<^verbatim>\<open>config_bootloader_version()\<close> and
  \<^verbatim>\<open>io_get_addr_raw()\<close> return), \<open>uart_rx_level\<close> (the bit \<^verbatim>\<open>PIN_UART_RX\<close> of \<^verbatim>\<open>PINE\<close>),
  and the three logs \<open>calls\<close>, \<open>trace\<close> and \<open>btn_fired\<close>. \<open>error_addr_zero\<close> and
  \<open>error_bad_mtbbus_polarity\<close> are the bits of \<^verbatim>\<open>error_flags\<close>; \<open>init_counter\<close> is
  \<^verbatim>\<open>_init_counter\<close>; the fields \<open>mtbbus_diag_*\<close> are those of \<^verbatim>\<open>mtbbus_diag\<close>.
\<close>

record state =
  initialized :: bool
  init_counter :: u8
  halted :: bool
  error_addr_zero :: bool
  error_bad_mtbbus_polarity :: bool
  led_gr_counter :: u8
  led_red_counter :: u8
  led_green :: bool
  led_red :: bool
  led_blue :: bool
  beacon :: bool
  mtbbus_timeout :: u8
  btn_pressed :: bool
  btn_press_time :: u8
  mtbbus_auto_speed_in_progress :: bool
  mtbbus_auto_speed_timer :: u8
  mtbbus_auto_speed_last :: u8
  diag_timer :: u8
  t3_elapsed :: bool
  outputs_changed_when_setting_scom :: bool
  last_input_changed :: bool
  last_diag_changed :: bool
  first_scan :: bool
  inputs_logic_state :: u16
  inputs_old :: u16
  mtbbus_warn_flags :: u8
  mtbbus_warn_flags_old :: u8
  config_safe_state :: "u8 list"
  config_inputs_delay :: "u8 list"
  config_mtbbus_speed :: u8
  config_write :: bool
  mtbbus_output_buf :: "nat \<Rightarrow> u8"
  mtbbus_speed :: u8
  mtbbus_addr :: u8
  mtbbus_can_fill_output_buf :: bool
  mtbbus_on_sent :: "on_sent option"
  uptime_seconds :: "u8 list"
  vcc_voltage :: u16
  mtbbus_diag_received :: "u8 list"
  mtbbus_diag_bad_crc :: "u8 list"
  mtbbus_diag_sent :: "u8 list"
  mtbbus_diag_unsent :: "u8 list"
  config_bootloader_version :: u16
  io_addr_raw :: u8
  uart_rx_level :: bool
  calls :: "call list"
  trace :: "action list"
  btn_fired :: "btn_action list"

subsection \<open>Collaborators\<close>

text \<open>
  The output buffer \<^verbatim>\<open>mtbbus_output_buf\<close> is an array of the transport; its capacity is
  declared in the absent header, so it is a map from offset to byte. \<open>buf_put i v\<close> is the
  assignment \<^verbatim>\<open>mtbbus_output_buf[i] = v\<close> and \<open>buf_memcpy off xs\<close> is
  \<^verbatim>\<open>memcpy(mtbbus_output_buf+off, xs, length xs)\<close>.
\<close>

definition buf_put :: "nat \<Rightarrow> u8 \<Rightarrow> state \<Rightarrow> state" where
  "buf_put i v s = s\<lparr>mtbbus_output_buf := (mtbbus_output_buf s)(i := v)\<rparr>"

definition buf_memcpy :: "nat \<Rightarrow> u8 list \<Rightarrow> state \<Rightarrow> state" where
  "buf_memcpy off xs s =
     s\<lparr>mtbbus_output_buf :=
         (\<lambda>i. if off \<le> i \<and> i < off + length xs then xs ! (i - off) else mtbbus_output_buf s i)\<rparr>"

text \<open>\<^verbatim>\<open>memcpy(dst, src, n)\<close> on a table held as a list: the first \<open>n\<close> bytes are replaced.\<close>

definition memcpy_table :: "u8 list \<Rightarrow> u8 list \<Rightarrow> nat \<Rightarrow> u8 list" where
  "memcpy_table dst src n = take n src @ drop n dst"

text \<open>A frame in the buffer: the length byte and as many bytes as it announces.\<close>

definition frame_of :: "(nat \<Rightarrow> u8) \<Rightarrow> u8 list" where
  "frame_of b = map b [0..<Suc (unat (b 0))]"

text \<open>
  Modelled from the spec: \<^verbatim>\<open>mtbbus_send_buf_autolen\<close> of lib/mtbbus is absent. The transport
  "accepts one outgoing response frame per request", and "every response begins with a length
  byte (payload length including the response-code byte) followed by the response code": the
  call hands the frame in the buffer to the transport. What the transport does with it is not
  modelled.
\<close>

definition mtbbus_send_buf_autolen :: "state \<Rightarrow> state" where
  "mtbbus_send_buf_autolen s =
     s\<lparr>calls := calls s @ [Mtbbus_send_buf_autolen (frame_of (mtbbus_output_buf s))],
       trace := trace s @ [Call (Mtbbus_send_buf_autolen (frame_of (mtbbus_output_buf s)))]\<rparr>"

text \<open>
  Modelled from the spec: \<^verbatim>\<open>mtbbus_set_speed\<close> of lib/mtbbus is absent; it is the transport's
  "speed-switch primitive", after which \<^verbatim>\<open>mtbbus_speed\<close> is the speed given.
\<close>

definition mtbbus_set_speed :: "u8 \<Rightarrow> state \<Rightarrow> state" where
  "mtbbus_set_speed v s =
     s\<lparr>mtbbus_speed := v, calls := calls s @ [Mtbbus_set_speed v],
       trace := trace s @ [Call (Mtbbus_set_speed v)]\<rparr>"

definition outputs_set_zipped :: "u8 list \<Rightarrow> state \<Rightarrow> state" where
  "outputs_set_zipped data s =
     s\<lparr>calls := calls s @ [Outputs_set_zipped data],
       trace := trace s @ [Call (Outputs_set_zipped data)]\<rparr>"

definition outputs_set_full :: "u8 list \<Rightarrow> state \<Rightarrow> state" where
  "outputs_set_full st s =
     s\<lparr>calls := calls s @ [Outputs_set_full st],
       trace := trace s @ [Call (Outputs_set_full st)]\<rparr>"

definition config_boot_fwupgd :: "state \<Rightarrow> state" where
  "config_boot_fwupgd s =
     s\<lparr>calls := calls s @ [Config_boot_fwupgd], trace := trace s @ [Call Config_boot_fwupgd]\<rparr>"

subsection \<open>Response routines\<close>

definition mtbbus_send_ack :: "headers \<Rightarrow> state \<Rightarrow> state" where
  "mtbbus_send_ack H s =
     (let s = buf_put 0 1 s;
          s = buf_put 1 (MTBBUS_CMD_MISO_ACK (miso H)) s
      in mtbbus_send_buf_autolen s)"

definition mtbbus_send_inputs :: "headers \<Rightarrow> u8 \<Rightarrow> state \<Rightarrow> state" where
  "mtbbus_send_inputs H message_code s =
     (let s = buf_put 0 3 s;
          s = buf_put 1 message_code s;
          s = buf_put 2 (ucast (drop_bit 8 (inputs_logic_state s) AND 0xFF)) s;
          s = buf_put 3 (ucast (inputs_logic_state s AND 0xFF)) s
      in mtbbus_send_buf_autolen s)"

definition mtbbus_send_error :: "headers \<Rightarrow> u8 \<Rightarrow> state \<Rightarrow> state" where
  "mtbbus_send_error H code s =
     (let s = buf_put 0 2 s;
          s = buf_put 1 (MTBBUS_CMD_MISO_ERROR (miso H)) s;
          s = buf_put 2 code s
      in mtbbus_send_buf_autolen s)"

text \<open>
  The earlier revision of main.c (the first part of the file) guards its two response routines
  with \<^verbatim>\<open>mtbbus_can_fill_output_buf()\<close>; the state field of that name is what the transport
  answers.
\<close>

definition mtbbus_send_ack_early :: "headers \<Rightarrow> state \<Rightarrow> state" where
  "mtbbus_send_ack_early H s =
     (if \<not> mtbbus_can_fill_output_buf s then s
      else let s = buf_put 0 1 s;
               s = buf_put 1 (MTBBUS_CMD_MISO_ACK (miso H)) s
           in mtbbus_send_buf_autolen s)"

definition mtbbus_send_inputs_early :: "headers \<Rightarrow> u8 \<Rightarrow> state \<Rightarrow> state" where
  "mtbbus_send_inputs_early H message_code s =
     (if \<not> mtbbus_can_fill_output_buf s then s
      else let s = buf_put 0 3 s;
               s = buf_put 1 message_code s;
               s = buf_put 2 (ucast (drop_bit 8 (inputs_logic_state s) AND 0xFF)) s;
               s = buf_put 3 (ucast (inputs_logic_state s AND 0xFF)) s
           in mtbbus_send_buf_autolen s)"

text \<open>
  The \<^verbatim>\<open>switch (i)\<close> of \<^verbatim>\<open>send_diag_value\<close>: the case label that matches, in the order of the
  labels. A variable copied with \<^verbatim>\<open>MEMCPY_FROM_VAR\<close> is held in the state as its bytes, so that
  \<^verbatim>\<open>sizeof\<close> is their number.
\<close>

datatype dv_label =
    DV_VERSION | DV_STATE | DV_UPTIME | DV_WARNINGS | DV_VMCU
  | DV_MTBBUS_RECEIVED | DV_MTBBUS_BAD_CRC | DV_MTBBUS_SENT | DV_MTBBUS_UNSENT | DV_default

definition dv_switch :: "headers \<Rightarrow> u8 \<Rightarrow> dv_label" where
  "dv_switch H i =
     (if i = MTBBUS_DV_VERSION (dv H) then DV_VERSION
      else if i = MTBBUS_DV_STATE (dv H) then DV_STATE
      else if i = MTBBUS_DV_UPTIME (dv H) then DV_UPTIME
      else if i = MTBBUS_DV_WARNINGS (dv H) then DV_WARNINGS
      else if i = MTBBUS_DV_VMCU (dv H) then DV_VMCU
      else if i = MTBBUS_DV_MTBBUS_RECEIVED (dv H) then DV_MTBBUS_RECEIVED
      else if i = MTBBUS_DV_MTBBUS_BAD_CRC (dv H) then DV_MTBBUS_BAD_CRC
      else if i = MTBBUS_DV_MTBBUS_SENT (dv H) then DV_MTBBUS_SENT
      else if i = MTBBUS_DV_MTBBUS_UNSENT (dv H) then DV_MTBBUS_UNSENT
      else DV_default)"

definition send_diag_value :: "headers \<Rightarrow> u8 \<Rightarrow> state \<Rightarrow> state" where
  "send_diag_value H i s =
     (let s = buf_put 1 (MTBBUS_CMD_MISO_DIAG_VALUE (miso H)) s;
          s = buf_put 2 i s;
          s = (case dv_switch H i of
                 DV_VERSION \<Rightarrow>
                   let s = buf_put 0 (2 + 1) s in buf_put 3 0x10 s
               | DV_STATE \<Rightarrow>
                   let s = buf_put 0 (2 + 1) s
                   in buf_put 3 (push_bit 1 (if mtbbus_warn_flags s > 0 then 1 else 0)) s
               | DV_UPTIME \<Rightarrow>
                   let s = buf_put 0 (of_nat (2 + length (uptime_seconds s))) s
                   in buf_memcpy 3 (uptime_seconds s) s
               | DV_WARNINGS \<Rightarrow>
                   let s = s\<lparr>mtbbus_warn_flags_old := mtbbus_warn_flags s\<rparr>;
                       s = buf_put 0 (2 + 1) s
                   in buf_put 3 (mtbbus_warn_flags s) s
               | DV_VMCU \<Rightarrow>
                   let s = buf_put 0 (2 + 2) s;
                       s = buf_put 3 (ucast (drop_bit 8 (vcc_voltage s))) s
                   in buf_put 4 (ucast (vcc_voltage s AND 0xFF)) s
               | DV_MTBBUS_RECEIVED \<Rightarrow>
                   let s = buf_put 0 (of_nat (2 + length (mtbbus_diag_received s))) s
                   in buf_memcpy 3 (mtbbus_diag_received s) s
               | DV_MTBBUS_BAD_CRC \<Rightarrow>
                   let s = buf_put 0 (of_nat (2 + length (mtbbus_diag_bad_crc s))) s
                   in buf_memcpy 3 (mtbbus_diag_bad_crc s) s
               | DV_MTBBUS_SENT \<Rightarrow>
                   let s = buf_put 0 (of_nat (2 + length (mtbbus_diag_sent s))) s
                   in buf_memcpy 3 (mtbbus_diag_sent s) s
               | DV_MTBBUS_UNSENT \<Rightarrow>
                   let s = buf_put 0 (of_nat (2 + length (mtbbus_diag_unsent s))) s
                   in buf_memcpy 3 (mtbbus_diag_unsent s) s
               | DV_default \<Rightarrow>
                   let s = buf_put 0 (2 + 0) s
                   in s\<lparr>mtbbus_warn_flags_old := mtbbus_warn_flags s\<rparr>)
      in mtbbus_send_buf_autolen s)"

subsection \<open>Speed autodetection\<close>

definition mtbbus_auto_speed_next :: "headers \<Rightarrow> state \<Rightarrow> state" where
  "mtbbus_auto_speed_next H s =
     (let s = s\<lparr>mtbbus_auto_speed_timer := 0\<rparr>;
          s = s\<lparr>mtbbus_auto_speed_last := mtbbus_auto_speed_last s + 1\<rparr>;
          s = (if mtbbus_auto_speed_last s > MTBBUS_SPEED_MAX (module H)
               then s\<lparr>mtbbus_auto_speed_last := MTBBUS_SPEED_38400 (module H)\<rparr> else s)
      in mtbbus_set_speed (mtbbus_auto_speed_last s) s)"

definition autodetect_mtbbus_speed :: "headers \<Rightarrow> state \<Rightarrow> state" where
  "autodetect_mtbbus_speed H s =
     (let s = s\<lparr>led_blue := True\<rparr>;
          s = s\<lparr>mtbbus_auto_speed_in_progress := True\<rparr>;
          s = s\<lparr>mtbbus_auto_speed_last := 0\<rparr>
      in mtbbus_auto_speed_next H s)"

definition mtbbus_auto_speed_received :: "state \<Rightarrow> state" where
  "mtbbus_auto_speed_received s =
     (let s = s\<lparr>mtbbus_auto_speed_in_progress := False\<rparr>;
          s = s\<lparr>config_mtbbus_speed := mtbbus_speed s,
                 trace := trace s @ [Store Config_mtbbus_speed]\<rparr>;
          s = s\<lparr>config_write := True, trace := trace s @ [Store Config_write]\<rparr>
      in s\<lparr>led_blue := False\<rparr>)"

definition autodetect_mtbbus_speed_stop :: "state \<Rightarrow> state" where
  "autodetect_mtbbus_speed_stop s =
     (if mtbbus_auto_speed_in_progress s
      then (s\<lparr>mtbbus_auto_speed_in_progress := False\<rparr>)\<lparr>led_blue := False\<rparr>
      else s)"

subsection \<open>The command dispatcher\<close>

text \<open>
  \<^verbatim>\<open>goto_bootloader\<close> ends in \<^verbatim>\<open>while (true);\<close> and waits for the watchdog: control never
  returns, which \<open>halted\<close> records. It is the last statement of the one case that calls it.
\<close>

definition goto_bootloader :: "state \<Rightarrow> state" where
  "goto_bootloader s =
     (let s = s\<lparr>calls := calls s @ [Config_int_wdrf True],
                 trace := trace s @ [Call (Config_int_wdrf True)]\<rparr>;
          s = s\<lparr>calls := calls s @ [Wdt_enable_15MS], trace := trace s @ [Call Wdt_enable_15MS]\<rparr>
      in s\<lparr>halted := True\<rparr>)"

text \<open>
  The \<^verbatim>\<open>switch (command_code)\<close> of \<^verbatim>\<open>mtbbus_received\<close>: the case label that matches, in the
  order of the labels; \<open>CASE_default\<close> when none does.
\<close>

datatype mosi_label =
    CASE_MODULE_INQUIRY | CASE_INFO_REQ | CASE_SET_CONFIG | CASE_GET_CONFIG | CASE_BEACON
  | CASE_GET_INPUT | CASE_SET_OUTPUT | CASE_RESET_OUTPUTS | CASE_CHANGE_ADDR | CASE_CHANGE_SPEED
  | CASE_FWUPGD_REQUEST | CASE_REBOOT | CASE_DIAG_VALUE_REQ | CASE_default

definition mosi_switch :: "headers \<Rightarrow> u8 \<Rightarrow> mosi_label" where
  "mosi_switch H c =
     (if c = MTBBUS_CMD_MOSI_MODULE_INQUIRY (mosi H) then CASE_MODULE_INQUIRY
      else if c = MTBBUS_CMD_MOSI_INFO_REQ (mosi H) then CASE_INFO_REQ
      else if c = MTBBUS_CMD_MOSI_SET_CONFIG (mosi H) then CASE_SET_CONFIG
      else if c = MTBBUS_CMD_MOSI_GET_CONFIG (mosi H) then CASE_GET_CONFIG
      else if c = MTBBUS_CMD_MOSI_BEACON (mosi H) then CASE_BEACON
      else if c = MTBBUS_CMD_MOSI_GET_INPUT (mosi H) then CASE_GET_INPUT
      else if c = MTBBUS_CMD_MOSI_SET_OUTPUT (mosi H) then CASE_SET_OUTPUT
      else if c = MTBBUS_CMD_MOSI_RESET_OUTPUTS (mosi H) then CASE_RESET_OUTPUTS
      else if c = MTBBUS_CMD_MOSI_CHANGE_ADDR (mosi H) then CASE_CHANGE_ADDR
      else if c = MTBBUS_CMD_MOSI_CHANGE_SPEED (mosi H) then CASE_CHANGE_SPEED
      else if c = MTBBUS_CMD_MOSI_FWUPGD_REQUEST (mosi H) then CASE_FWUPGD_REQUEST
      else if c = MTBBUS_CMD_MOSI_REBOOT (mosi H) then CASE_REBOOT
      else if c = MTBBUS_CMD_MOSI_DIAG_VALUE_REQ (mosi H) then CASE_DIAG_VALUE_REQ
      else CASE_default)"

text \<open>The label \<^verbatim>\<open>INVALID_MSG\<close>, shared with \<^verbatim>\<open>default\<close>.\<close>

definition INVALID_MSG :: "headers \<Rightarrow> bool \<Rightarrow> state \<Rightarrow> state" where
  "INVALID_MSG H broadcast s =
     (if \<not> broadcast then mtbbus_send_error H (MTBBUS_ERROR_UNKNOWN_COMMAND (miso H)) s else s)"

text \<open>
  The statements of \<^verbatim>\<open>mtbbus_received\<close> between the gate and the switch.
  \<^verbatim>\<open>_delay_us(2)\<close> has no effect on the state.
\<close>

definition received_prologue :: "state \<Rightarrow> state" where
  "received_prologue s =
     (let s = s\<lparr>error_bad_mtbbus_polarity := False\<rparr>;
          s = (if led_gr_counter s = 0
               then (s\<lparr>led_green := True\<rparr>)\<lparr>led_gr_counter := LED_GR_ON\<rparr> else s);
          s = s\<lparr>mtbbus_timeout := 0\<rparr>
      in if mtbbus_auto_speed_in_progress s then mtbbus_auto_speed_received s else s)"

text \<open>
  The payload \<^verbatim>\<open>data\<close>, \<^verbatim>\<open>data_len\<close> is a list of bytes and its length (\<^verbatim>\<open>data_len\<close> is a
  \<^verbatim>\<open>uint8_t\<close>, so a frame has fewer than 256 payload bytes); the three \<^verbatim>\<open>static\<close> locals of
  the inquiry case are fields of the state. Each case of the switch is a definition of its own,
  named after its label; \<open>mtbbus_received\<close> puts them together. The two configuration
  tables are lists, of \<^verbatim>\<open>NO_OUTPUTS\<close> and \<^verbatim>\<open>NO_INPUTS/2\<close> bytes in a well-formed state; the
  \<^verbatim>\<open>memcpy\<close> calls copy as many bytes as the source writes.
\<close>

definition case_MODULE_INQUIRY :: "headers \<Rightarrow> bool \<Rightarrow> u8 list \<Rightarrow> state \<Rightarrow> state" where
  "case_MODULE_INQUIRY H broadcast data s =
     (if \<not> broadcast \<and> length data \<ge> 1 then
        let last_ok = (data ! 0 AND 1 \<noteq> 0) in
        if inputs_logic_state s \<noteq> inputs_old s \<or> (last_input_changed s \<and> \<not> last_ok)
           \<or> first_scan s
        then
          let s = s\<lparr>last_input_changed := True\<rparr>;
              s = s\<lparr>first_scan := False\<rparr>;
              s = mtbbus_send_inputs H (MTBBUS_CMD_MISO_INPUT_CHANGED (miso H)) s
          in s\<lparr>inputs_old := inputs_logic_state s\<rparr>
        else
          let s = s\<lparr>last_input_changed := False\<rparr> in
          if mtbbus_warn_flags s \<noteq> mtbbus_warn_flags_old s \<or> (last_diag_changed s \<and> \<not> last_ok)
          then
            let s = s\<lparr>last_diag_changed := True\<rparr>;
                s = s\<lparr>mtbbus_warn_flags_old := mtbbus_warn_flags s\<rparr>
            in send_diag_value H (MTBBUS_DV_STATE (dv H)) s
          else mtbbus_send_ack H s
      else INVALID_MSG H broadcast s)"

definition case_INFO_REQ :: "headers \<Rightarrow> bool \<Rightarrow> state \<Rightarrow> state" where
  "case_INFO_REQ H broadcast s =
     (if \<not> broadcast then
        let bootloader_ver = config_bootloader_version s;
            s = buf_put 0 9 s;
            s = buf_put 1 (MTBBUS_CMD_MISO_MODULE_INFO (miso H)) s;
            s = buf_put 2 (CONFIG_MODULE_TYPE (module H)) s;
            s = buf_put 3 (push_bit 2 (if mtbbus_warn_flags s > 0 then 1 else 0)) s;
            s = buf_put 4 (CONFIG_FW_MAJOR (module H)) s;
            s = buf_put 5 (CONFIG_FW_MINOR (module H)) s;
            s = buf_put 6 (CONFIG_PROTO_MAJOR (module H)) s;
            s = buf_put 7 (CONFIG_PROTO_MINOR (module H)) s;
            s = buf_put 8 (ucast (drop_bit 8 bootloader_ver)) s;
            s = buf_put 9 (ucast (bootloader_ver AND 0xFF)) s
        in mtbbus_send_buf_autolen s
      else INVALID_MSG H broadcast s)"

definition case_SET_CONFIG :: "headers \<Rightarrow> bool \<Rightarrow> u8 list \<Rightarrow> state \<Rightarrow> state" where
  "case_SET_CONFIG H broadcast data s =
     (if length data \<ge> 24 \<and> \<not> broadcast then
        let s = mtbbus_send_ack H s;
            s = s\<lparr>config_safe_state :=
                   memcpy_table (config_safe_state s) data (NO_OUTPUTS (module H)),
                 trace := trace s @ [Store Config_safe_state]\<rparr>;
            s = s\<lparr>config_inputs_delay :=
                   memcpy_table (config_inputs_delay s) (drop (NO_OUTPUTS (module H)) data)
                     (NO_INPUTS (module H) div 2),
                 trace := trace s @ [Store Config_inputs_delay]\<rparr>
        in s\<lparr>config_write := True, trace := trace s @ [Store Config_write]\<rparr>
      else INVALID_MSG H broadcast s)"

definition case_GET_CONFIG :: "headers \<Rightarrow> bool \<Rightarrow> state \<Rightarrow> state" where
  "case_GET_CONFIG H broadcast s =
     (if \<not> broadcast then
        let s = buf_put 0 25 s;
            s = buf_put 1 (MTBBUS_CMD_MISO_MODULE_CONFIG (miso H)) s;
            s = buf_memcpy 2 (take (NO_OUTPUTS (module H)) (config_safe_state s)) s;
            s = buf_memcpy (2 + NO_OUTPUTS (module H))
                  (take (NO_INPUTS (module H) div 2) (config_inputs_delay s)) s
        in mtbbus_send_buf_autolen s
      else INVALID_MSG H broadcast s)"

definition case_BEACON :: "headers \<Rightarrow> bool \<Rightarrow> u8 list \<Rightarrow> state \<Rightarrow> state" where
  "case_BEACON H broadcast data s =
     (if length data \<ge> 1 then
        let s = s\<lparr>beacon := (data ! 0 \<noteq> 0), trace := trace s @ [Store Beacon]\<rparr>
        in if \<not> broadcast then mtbbus_send_ack H s else s
      else INVALID_MSG H broadcast s)"

definition case_GET_INPUT :: "headers \<Rightarrow> bool \<Rightarrow> state \<Rightarrow> state" where
  "case_GET_INPUT H broadcast s =
     (if \<not> broadcast then mtbbus_send_inputs H (MTBBUS_CMD_MISO_INPUT_STATE (miso H)) s
      else INVALID_MSG H broadcast s)"

definition case_SET_OUTPUT :: "headers \<Rightarrow> bool \<Rightarrow> u8 list \<Rightarrow> state \<Rightarrow> state" where
  "case_SET_OUTPUT H broadcast data s =
     (if length data \<ge> 4 \<and> \<not> broadcast then
        let s = buf_put 0 (of_nat (length data + 1)) s;
            s = buf_put 1 (MTBBUS_CMD_MISO_OUTPUT_SET (miso H)) s;
            s = buf_memcpy 2 data s;
            s = mtbbus_send_buf_autolen s;
            s = outputs_set_zipped data s
        in s\<lparr>outputs_changed_when_setting_scom := True,
             trace := trace s @ [Store Outputs_changed_when_setting_scom]\<rparr>
      else INVALID_MSG H broadcast s)"

definition case_RESET_OUTPUTS :: "headers \<Rightarrow> bool \<Rightarrow> state \<Rightarrow> state" where
  "case_RESET_OUTPUTS H broadcast s =
     (let s = (if \<not> broadcast then mtbbus_send_ack H s else s)
      in outputs_set_full (config_safe_state s) s)"

definition case_CHANGE_ADDR :: "headers \<Rightarrow> bool \<Rightarrow> u8 list \<Rightarrow> state \<Rightarrow> state" where
  "case_CHANGE_ADDR H broadcast data s =
     (if length data \<ge> 1 \<and> \<not> broadcast
      then mtbbus_send_error H (MTBBUS_ERROR_UNSUPPORTED_COMMAND (miso H)) s
      else INVALID_MSG H broadcast s)"

definition case_CHANGE_SPEED :: "headers \<Rightarrow> bool \<Rightarrow> u8 list \<Rightarrow> state \<Rightarrow> state" where
  "case_CHANGE_SPEED H broadcast data s =
     (if length data \<ge> 1 then
        let s = s\<lparr>config_mtbbus_speed := data ! 0,
                   trace := trace s @ [Store Config_mtbbus_speed]\<rparr>;
            s = s\<lparr>config_write := True, trace := trace s @ [Store Config_write]\<rparr>;
            s = mtbbus_set_speed (data ! 0) s
        in if \<not> broadcast then mtbbus_send_ack H s else s
      else INVALID_MSG H broadcast s)"

definition case_FWUPGD_REQUEST :: "headers \<Rightarrow> bool \<Rightarrow> u8 list \<Rightarrow> state \<Rightarrow> state" where
  "case_FWUPGD_REQUEST H broadcast data s =
     (if length data \<ge> 1 \<and> \<not> broadcast then
        let s = config_boot_fwupgd s;
            s = s\<lparr>mtbbus_on_sent := Some Goto_bootloader,
                   trace := trace s @ [Store Mtbbus_on_sent]\<rparr>
        in mtbbus_send_ack H s
      else INVALID_MSG H broadcast s)"

definition case_REBOOT :: "headers \<Rightarrow> bool \<Rightarrow> state \<Rightarrow> state" where
  "case_REBOOT H broadcast s =
     (if broadcast then goto_bootloader s
      else
        let s = s\<lparr>mtbbus_on_sent := Some Goto_bootloader,
                   trace := trace s @ [Store Mtbbus_on_sent]\<rparr>
        in mtbbus_send_ack H s)"

definition case_DIAG_VALUE_REQ :: "headers \<Rightarrow> bool \<Rightarrow> u8 list \<Rightarrow> state \<Rightarrow> state" where
  "case_DIAG_VALUE_REQ H broadcast data s =
     (if length data \<ge> 1 then send_diag_value H (data ! 0) s
      else INVALID_MSG H broadcast s)"

definition mtbbus_received :: "headers \<Rightarrow> bool \<Rightarrow> u8 \<Rightarrow> u8 list \<Rightarrow> state \<Rightarrow> state" where
  "mtbbus_received H broadcast command_code data s =
     (if \<not> initialized s then s
      else
        let s = received_prologue s
        in case mosi_switch H command_code of
             CASE_MODULE_INQUIRY \<Rightarrow> case_MODULE_INQUIRY H broadcast data s
           | CASE_INFO_REQ \<Rightarrow> case_INFO_REQ H broadcast s
           | CASE_SET_CONFIG \<Rightarrow> case_SET_CONFIG H broadcast data s
           | CASE_GET_CONFIG \<Rightarrow> case_GET_CONFIG H broadcast s
           | CASE_BEACON \<Rightarrow> case_BEACON H broadcast data s
           | CASE_GET_INPUT \<Rightarrow> case_GET_INPUT H broadcast s
           | CASE_SET_OUTPUT \<Rightarrow> case_SET_OUTPUT H broadcast data s
           | CASE_RESET_OUTPUTS \<Rightarrow> case_RESET_OUTPUTS H broadcast s
           | CASE_CHANGE_ADDR \<Rightarrow> case_CHANGE_ADDR H broadcast data s
           | CASE_CHANGE_SPEED \<Rightarrow> case_CHANGE_SPEED H broadcast data s
           | CASE_FWUPGD_REQUEST \<Rightarrow> case_FWUPGD_REQUEST H broadcast data s
           | CASE_REBOOT \<Rightarrow> case_REBOOT H broadcast s
           | CASE_DIAG_VALUE_REQ \<Rightarrow> case_DIAG_VALUE_REQ H broadcast data s
           | CASE_default \<Rightarrow> INVALID_MSG H broadcast s)"

subsection \<open>Button\<close>

definition led_red_ok :: "state \<Rightarrow> state" where
  "led_red_ok s =
     (if led_red_counter s = 0
      then (s\<lparr>led_red_counter := LED_RED_OK_ON\<rparr>)\<lparr>led_red := True\<rparr> else s)"

definition update_mtbbus_polarity :: "state \<Rightarrow> state" where
  "update_mtbbus_polarity s = s\<lparr>error_bad_mtbbus_polarity := \<not> uart_rx_level s\<rparr>"

definition mtbbus_addressed :: "state \<Rightarrow> bool" where
  "mtbbus_addressed s \<longleftrightarrow> mtbbus_timeout s < MTBBUS_TIMEOUT_MAX"

text \<open>
  The two press actions record their invocation in \<open>btn_fired\<close>; the field is no variable of
  main.c, it only counts how often each action runs.
\<close>

definition btn_short_press :: "state \<Rightarrow> state" where
  "btn_short_press s =
     (let s = s\<lparr>btn_fired := btn_fired s @ [Short_press]\<rparr> in
      if mtbbus_auto_speed_in_progress s then autodetect_mtbbus_speed_stop s
      else
        let mtbbus_addr' = io_addr_raw s;
            s = s\<lparr>error_addr_zero := (mtbbus_addr' = 0)\<rparr>;
            s = s\<lparr>mtbbus_addr := mtbbus_addr'\<rparr>;
            s = (if mtbbus_addr s \<noteq> 0 then led_red_ok s else s)
        in update_mtbbus_polarity s)"

definition btn_long_press :: "headers \<Rightarrow> state \<Rightarrow> state" where
  "btn_long_press H s =
     (let s = s\<lparr>btn_fired := btn_fired s @ [Long_press]\<rparr> in
      if \<not> mtbbus_addressed s then autodetect_mtbbus_speed H s else s)"

definition btn_on_pressed :: "state \<Rightarrow> state" where
  "btn_on_pressed s = s\<lparr>btn_press_time := 0\<rparr>"

definition btn_on_depressed :: "state \<Rightarrow> state" where
  "btn_on_depressed s = (if btn_press_time s < BTN_PRESS_1S then btn_short_press s else s)"

subsection \<open>Timer interrupt and main loop\<close>

definition on_initialized :: "state \<Rightarrow> state" where
  "on_initialized s =
     (let s = s\<lparr>led_red := False\<rparr>;
          s = s\<lparr>led_green := False\<rparr>;
          s = s\<lparr>led_blue := False\<rparr>
      in s\<lparr>initialized := True\<rparr>)"

text \<open>
  \<^verbatim>\<open>ISR(TIMER3_COMPA_vect)\<close>. The test of the registers of timer 1,
  \<^verbatim>\<open>(TCNT1H > 0) & (TCNT1H < OCR1AH)\<close>, is the argument \<open>missed\<close>; the bit
  \<^verbatim>\<open>missed_timer\<close> of the warning flags is the mask \<open>WARN_MISSED_TIMER\<close>.
\<close>

definition TIMER3_COMPA_vect :: "headers \<Rightarrow> bool \<Rightarrow> state \<Rightarrow> state" where
  "TIMER3_COMPA_vect H missed s =
     (let s = (if missed
               then s\<lparr>mtbbus_warn_flags := mtbbus_warn_flags s OR WARN_MISSED_TIMER (module H)\<rparr>
               else s);
          s = s\<lparr>t3_elapsed := True\<rparr>;
          s = (if init_counter s < INIT_TIME then s\<lparr>init_counter := init_counter s + 1\<rparr> else s);
          s = (if mtbbus_timeout s < MTBBUS_TIMEOUT_MAX
               then s\<lparr>mtbbus_timeout := mtbbus_timeout s + 1\<rparr> else s);
          s = (if btn_pressed s \<and> btn_press_time s < BTN_PRESS_1S
               then s\<lparr>btn_press_time := btn_press_time s + 1\<rparr> else s);
          s = (if mtbbus_auto_speed_in_progress s \<and> mtbbus_auto_speed_timer s < MTBBUS_AUTO_SPEED_TIMEOUT
               then s\<lparr>mtbbus_auto_speed_timer := mtbbus_auto_speed_timer s + 1\<rparr> else s)
      in if diag_timer s < DIAG_UPDATE_PERIOD (module H)
         then s\<lparr>diag_timer := diag_timer s + 1\<rparr> else s)"

text \<open>
  The statements of the loop body of \<^verbatim>\<open>main\<close> that belong to the engine, in the order of the
  source: the long-press check, the autodetection timeout and the initialization gate. The other
  statements of the loop body are not part of the model: \<^verbatim>\<open>mtbbus_update\<close> (the delivery of a
  frame is the event \<open>RECEIVED\<close> below), the debouncer, \<^verbatim>\<open>config_save\<close> with the
  clearing of \<^verbatim>\<open>config_write\<close>, \<^verbatim>\<open>diag_update\<close> with the reset of \<^verbatim>\<open>diag_timer\<close>, and the
  block run once per tick (\<^verbatim>\<open>t3_elapsed\<close>, the output driver, \<^verbatim>\<open>leds_update\<close>, the S-COM
  update) with \<^verbatim>\<open>wdt_reset\<close>. The assignments among them (to
  \<^verbatim>\<open>config_write\<close>, \<^verbatim>\<open>diag_timer\<close>, \<^verbatim>\<open>t3_elapsed\<close> and
  \<^verbatim>\<open>outputs_changed_when_setting_scom\<close>, and those of \<^verbatim>\<open>leds_update\<close>) write no variable of
  the button, of the autodetection or of the gate; their calls are not logged.
\<close>

definition main_btn_check :: "headers \<Rightarrow> state \<Rightarrow> state" where
  "main_btn_check H s =
     (if btn_press_time s = BTN_PRESS_1S
      then let s = s\<lparr>btn_press_time := 0xFF\<rparr> in btn_long_press H s
      else s)"

definition main_auto_speed_check :: "headers \<Rightarrow> state \<Rightarrow> state" where
  "main_auto_speed_check H s =
     (if mtbbus_auto_speed_in_progress s \<and> mtbbus_auto_speed_timer s = MTBBUS_AUTO_SPEED_TIMEOUT
      then mtbbus_auto_speed_next H s else s)"

definition main_init_check :: "state \<Rightarrow> state" where
  "main_init_check s =
     (if init_counter s = INIT_TIME
      then let s = s\<lparr>init_counter := 0xFF\<rparr> in on_initialized s
      else s)"

definition main_loop_pass :: "headers \<Rightarrow> state \<Rightarrow> state" where
  "main_loop_pass H s =
     (let s = main_btn_check H s;
          s = main_auto_speed_check H s
      in main_init_check s)"

text \<open>
  What happens to the engine, one event at a time: a tick of timer 3, a pass of the main loop,
  the button going down or up, a frame delivered by the transport. The interrupt and the loop
  are interleaved at the granularity of these events.

  Modelled from the spec: the button driver of \<^verbatim>\<open>io.h\<close> is absent; \<^verbatim>\<open>btn_pressed\<close> is its
  variable and \<^verbatim>\<open>btn_on_pressed\<close>, \<^verbatim>\<open>btn_on_depressed\<close> are its callbacks: "On press, start
  Held with duration 0, incremented once per fixed tick while physically held", "Reset on
  release".
\<close>

datatype event =
    TIMER3 bool
  | MAIN_LOOP
  | BTN_DOWN
  | BTN_UP
  | RECEIVED bool u8 "u8 list"

fun step :: "headers \<Rightarrow> state \<Rightarrow> event \<Rightarrow> state" where
  "step H s (TIMER3 missed) = TIMER3_COMPA_vect H missed s"
| "step H s MAIN_LOOP = main_loop_pass H s"
| "step H s BTN_DOWN = btn_on_pressed (s\<lparr>btn_pressed := True\<rparr>)"
| "step H s BTN_UP = btn_on_depressed (s\<lparr>btn_pressed := False\<rparr>)"
| "step H s (RECEIVED broadcast command_code data) = mtbbus_received H broadcast command_code data s"

definition run :: "headers \<Rightarrow> state \<Rightarrow> event list \<Rightarrow> state" where
  "run H s es = foldl (step H) s es"

subsection \<open>Well-formed headers and an example\<close>

text \<open>
  A C \<^verbatim>\<open>switch\<close> does not compile with two equal case labels, so the labels of the two
  switches are pairwise different.
\<close>

definition mosi_distinct :: "headers \<Rightarrow> bool" where
  "mosi_distinct H \<longleftrightarrow>
     distinct [MTBBUS_CMD_MOSI_MODULE_INQUIRY (mosi H), MTBBUS_CMD_MOSI_INFO_REQ (mosi H),
       MTBBUS_CMD_MOSI_SET_CONFIG (mosi H), MTBBUS_CMD_MOSI_GET_CONFIG (mosi H),
       MTBBUS_CMD_MOSI_BEACON (mosi H), MTBBUS_CMD_MOSI_GET_INPUT (mosi H),
       MTBBUS_CMD_MOSI_SET_OUTPUT (mosi H), MTBBUS_CMD_MOSI_RESET_OUTPUTS (mosi H),
       MTBBUS_CMD_MOSI_CHANGE_ADDR (mosi H), MTBBUS_CMD_MOSI_CHANGE_SPEED (mosi H),
       MTBBUS_CMD_MOSI_FWUPGD_REQUEST (mosi H), MTBBUS_CMD_MOSI_REBOOT (mosi H),
       MTBBUS_CMD_MOSI_DIAG_VALUE_REQ (mosi H)]"

definition dv_distinct :: "headers \<Rightarrow> bool" where
  "dv_distinct H \<longleftrightarrow>
     distinct [MTBBUS_DV_VERSION (dv H), MTBBUS_DV_STATE (dv H), MTBBUS_DV_UPTIME (dv H),
       MTBBUS_DV_WARNINGS (dv H), MTBBUS_DV_VMCU (dv H), MTBBUS_DV_MTBBUS_RECEIVED (dv H),
       MTBBUS_DV_MTBBUS_BAD_CRC (dv H), MTBBUS_DV_MTBBUS_SENT (dv H),
       MTBBUS_DV_MTBBUS_UNSENT (dv H)]"

text \<open>
  The speeds: \<^verbatim>\<open>autodetect_mtbbus_speed\<close> "relies on first speed 38400 kBd = 0x01" and
  \<^verbatim>\<open>mtbbus_auto_speed_next\<close> "relies on continuous interval of speeds", up to
  \<^verbatim>\<open>MTBBUS_SPEED_MAX\<close>.
\<close>

definition speeds_ok :: "headers \<Rightarrow> bool" where
  "speeds_ok H \<longleftrightarrow>
     MTBBUS_SPEED_38400 (module H) = 1 \<and> 1 \<le> MTBBUS_SPEED_MAX (module H)
     \<and> MTBBUS_SPEED_MAX (module H) < 0xFF"

text \<open>An assignment of the constants, for evaluating the model on concrete inputs.\<close>

definition example_headers :: headers where
  "example_headers =
     \<lparr>mosi = \<lparr>MTBBUS_CMD_MOSI_MODULE_INQUIRY = 0x01, MTBBUS_CMD_MOSI_INFO_REQ = 0x02,
              MTBBUS_CMD_MOSI_SET_CONFIG = 0x03, MTBBUS_CMD_MOSI_GET_CONFIG = 0x04,
              MTBBUS_CMD_MOSI_BEACON = 0x05, MTBBUS_CMD_MOSI_GET_INPUT = 0x10,
              MTBBUS_CMD_MOSI_SET_OUTPUT = 0x11, MTBBUS_CMD_MOSI_RESET_OUTPUTS = 0x12,
              MTBBUS_CMD_MOSI_CHANGE_ADDR = 0x20, MTBBUS_CMD_MOSI_CHANGE_SPEED = 0x21,
              MTBBUS_CMD_MOSI_FWUPGD_REQUEST = 0xF0, MTBBUS_CMD_MOSI_REBOOT = 0xF3,
              MTBBUS_CMD_MOSI_DIAG_VALUE_REQ = 0xD0\<rparr>,
      miso = \<lparr>MTBBUS_CMD_MISO_ACK = 0x01, MTBBUS_CMD_MISO_ERROR = 0x02,
              MTBBUS_CMD_MISO_MODULE_INFO = 0x03, MTBBUS_CMD_MISO_MODULE_CONFIG = 0x04,
              MTBBUS_CMD_MISO_INPUT_CHANGED = 0x10, MTBBUS_CMD_MISO_INPUT_STATE = 0x11,
              MTBBUS_CMD_MISO_OUTPUT_SET = 0x12, MTBBUS_CMD_MISO_DIAG_VALUE = 0xD0,
              MTBBUS_ERROR_UNKNOWN_COMMAND = 0x01, MTBBUS_ERROR_UNSUPPORTED_COMMAND = 0x02\<rparr>,
      dv = \<lparr>MTBBUS_DV_VERSION = 0, MTBBUS_DV_STATE = 1, MTBBUS_DV_UPTIME = 2,
            MTBBUS_DV_WARNINGS = 10, MTBBUS_DV_VMCU = 16, MTBBUS_DV_MTBBUS_RECEIVED = 128,
            MTBBUS_DV_MTBBUS_BAD_CRC = 129, MTBBUS_DV_MTBBUS_SENT = 130,
            MTBBUS_DV_MTBBUS_UNSENT = 131\<rparr>,
      module = \<lparr>MTBBUS_SPEED_38400 = 1, MTBBUS_SPEED_MAX = 4, NO_OUTPUTS = 16, NO_INPUTS = 16,
                CONFIG_MODULE_TYPE = 0x15, CONFIG_FW_MAJOR = 1, CONFIG_FW_MINOR = 0,
                CONFIG_PROTO_MAJOR = 4, CONFIG_PROTO_MINOR = 0, DIAG_UPDATE_PERIOD = 100,
                WARN_MISSED_TIMER = 0x08\<rparr>\<rparr>"

text \<open>
  The globals as their initializers and \<^verbatim>\<open>init()\<close> leave them, for a module strapped to
  address 1 whose stored configuration is all zero at speed 1, with no reset cause recorded and
  all inputs inactive.
\<close>

definition power_on :: state where
  "power_on =
     \<lparr>initialized = False, init_counter = 0, halted = False,
      error_addr_zero = False, error_bad_mtbbus_polarity = False,
      led_gr_counter = 0, led_red_counter = 0,
      led_green = True, led_red = True, led_blue = True,
      beacon = False, mtbbus_timeout = MTBBUS_TIMEOUT_MAX,
      btn_pressed = False, btn_press_time = 0,
      mtbbus_auto_speed_in_progress = False, mtbbus_auto_speed_timer = 0,
      mtbbus_auto_speed_last = 0, diag_timer = 0, t3_elapsed = False,
      outputs_changed_when_setting_scom = False,
      last_input_changed = False, last_diag_changed = False, first_scan = True,
      inputs_logic_state = 0, inputs_old = 0,
      mtbbus_warn_flags = 0, mtbbus_warn_flags_old = 0xFF,
      config_safe_state = replicate 16 0, config_inputs_delay = replicate 8 0,
      config_mtbbus_speed = 1, config_write = False,
      mtbbus_output_buf = (\<lambda>i. 0), mtbbus_speed = 1, mtbbus_addr = 1,
      mtbbus_can_fill_output_buf = True, mtbbus_on_sent = None,
      uptime_seconds = [0, 0, 0, 0], vcc_voltage = 0,
      mtbbus_diag_received = [0, 0, 0, 0], mtbbus_diag_bad_crc = [0, 0, 0, 0],
      mtbbus_diag_sent = [0, 0, 0, 0], mtbbus_diag_unsent = [0, 0, 0, 0],
      config_bootloader_version = 0x0102, io_addr_raw = 1, uart_rx_level = True,
      calls = [], trace = [], btn_fired = []\<rparr>"

text \<open>The same module once the initialization gate has opened.\<close>

definition ready :: state where
  "ready = on_initialized (power_on\<lparr>init_counter := 0xFF\<rparr>)"

subsection \<open>Vocabulary of the properties\<close>

text \<open>The frames handed to the transport, in order: the responses among the calls.\<close>

fun responses :: "call list \<Rightarrow> u8 list list" where
  "responses [] = []"
| "responses (Mtbbus_send_buf_autolen f # cs) = f # responses cs"
| "responses (c # cs) = responses cs"

fun is_response :: "call \<Rightarrow> bool" where
  "is_response (Mtbbus_send_buf_autolen f) = True"
| "is_response c = False"

text \<open>
  In a list of calls the response comes first when every call to the transport's send routine
  stands before every other call.
\<close>

definition response_first :: "call list \<Rightarrow> bool" where
  "response_first cs \<longleftrightarrow> cs = filter is_response cs @ filter (\<lambda>c. \<not> is_response c) cs"

text \<open>The input snapshot as \<^verbatim>\<open>mtbbus_send_inputs\<close> sends it: high byte, low byte.\<close>

definition input_bytes :: "state \<Rightarrow> u8 list" where
  "input_bytes s =
     [ucast (drop_bit 8 (inputs_logic_state s) AND 0xFF), ucast (inputs_logic_state s AND 0xFF)]"

text \<open>The three answers to an inquiry, as frames.\<close>

definition frame_INPUT_CHANGED :: "headers \<Rightarrow> state \<Rightarrow> u8 list" where
  "frame_INPUT_CHANGED H s = 3 # MTBBUS_CMD_MISO_INPUT_CHANGED (miso H) # input_bytes s"

definition frame_DIAG_STATE :: "headers \<Rightarrow> state \<Rightarrow> u8 list" where
  "frame_DIAG_STATE H s =
     [3, MTBBUS_CMD_MISO_DIAG_VALUE (miso H), MTBBUS_DV_STATE (dv H),
      if mtbbus_warn_flags s > 0 then 2 else 0]"

definition frame_ACK :: "headers \<Rightarrow> u8 list" where
  "frame_ACK H = [1, MTBBUS_CMD_MISO_ACK (miso H)]"

definition frame_ERROR :: "headers \<Rightarrow> u8 \<Rightarrow> u8 list" where
  "frame_ERROR H code = [2, MTBBUS_CMD_MISO_ERROR (miso H), code]"

text \<open>
  The change-notification tracker in the words of the specification, to compare the inquiry
  case with: what is awaiting acknowledgment is the notification of the previous answer, if it
  was one. "If this is the first inquiry since startup, OR the live input snapshot differs from
  the last-reported one, OR (a notification was sent last time AND the poll indicates it was not
  received)" the answer is the input notification; "else if the live warning bitset differs
  from the last-reported one, OR (a diagnostic notification was sent last time AND not
  received)" it is the diagnostic push; "else" the plain acknowledgment.
\<close>

datatype answer = Input_changed | Diag_push | Plain_ack

datatype awaiting = Idle | Awaiting_input | Awaiting_diag

definition spec_answer :: "awaiting \<Rightarrow> bool \<Rightarrow> bool \<Rightarrow> bool \<Rightarrow> bool \<Rightarrow> answer" where
  "spec_answer w first inputs_differ warnings_differ last_ok =
     (if first \<or> inputs_differ \<or> (w = Awaiting_input \<and> \<not> last_ok) then Input_changed
      else if warnings_differ \<or> (w = Awaiting_diag \<and> \<not> last_ok) then Diag_push
      else Plain_ack)"

fun spec_awaiting :: "answer \<Rightarrow> awaiting" where
  "spec_awaiting Input_changed = Awaiting_input"
| "spec_awaiting Diag_push = Awaiting_diag"
| "spec_awaiting Plain_ack = Idle"

text \<open>
  The answers of the specification's tracker to a sequence of unicast inquiries, given by the
  first payload byte of each. What the tracker observes of the module (first inquiry, inputs and
  warnings against the last reported ones) is read from the state the code is in.
\<close>

fun spec_answers :: "headers \<Rightarrow> awaiting \<Rightarrow> state \<Rightarrow> u8 list \<Rightarrow> answer list" where
  "spec_answers H w s [] = []"
| "spec_answers H w s (b # bs) =
     (let a = spec_answer w (first_scan s) (inputs_logic_state s \<noteq> inputs_old s)
                (mtbbus_warn_flags s \<noteq> mtbbus_warn_flags_old s) (b AND 1 \<noteq> 0)
      in a # spec_answers H (spec_awaiting a)
               (mtbbus_received H False (MTBBUS_CMD_MOSI_MODULE_INQUIRY (mosi H)) [b] s) bs)"

text \<open>
  The request table of the specification (section 6): the minimal payload of each request and
  whether it may be broadcast; a request is rejected when its code is not recognized, its
  payload is shorter than the minimum, or it is broadcast and may not be.
\<close>

fun spec_min_payload :: "headers \<Rightarrow> mosi_label \<Rightarrow> nat" where
  "spec_min_payload H CASE_MODULE_INQUIRY = 1"
| "spec_min_payload H CASE_INFO_REQ = 0"
| "spec_min_payload H CASE_SET_CONFIG = NO_OUTPUTS (module H) + NO_INPUTS (module H) div 2"
| "spec_min_payload H CASE_GET_CONFIG = 0"
| "spec_min_payload H CASE_BEACON = 1"
| "spec_min_payload H CASE_GET_INPUT = 0"
| "spec_min_payload H CASE_SET_OUTPUT = 4"
| "spec_min_payload H CASE_RESET_OUTPUTS = 0"
| "spec_min_payload H CASE_CHANGE_ADDR = 1"
| "spec_min_payload H CASE_CHANGE_SPEED = 1"
| "spec_min_payload H CASE_FWUPGD_REQUEST = 1"
| "spec_min_payload H CASE_REBOOT = 0"
| "spec_min_payload H CASE_DIAG_VALUE_REQ = 1"
| "spec_min_payload H CASE_default = 0"

fun spec_may_broadcast :: "mosi_label \<Rightarrow> bool" where
  "spec_may_broadcast CASE_BEACON = True"
| "spec_may_broadcast CASE_RESET_OUTPUTS = True"
| "spec_may_broadcast CASE_CHANGE_SPEED = True"
| "spec_may_broadcast CASE_REBOOT = True"
| "spec_may_broadcast l = False"

definition spec_rejected :: "headers \<Rightarrow> bool \<Rightarrow> u8 \<Rightarrow> u8 list \<Rightarrow> bool" where
  "spec_rejected H broadcast command_code data \<longleftrightarrow>
     (let l = mosi_switch H command_code
      in l = CASE_default \<or> length data < spec_min_payload H l
         \<or> (broadcast \<and> \<not> spec_may_broadcast l))"


text \<open>
  The supported speeds in their order, cyclically: the \<open>n\<close>-th speed after the minimal one,
  for the "continuous interval of speeds" from \<^verbatim>\<open>MTBBUS_SPEED_38400\<close> to
  \<^verbatim>\<open>MTBBUS_SPEED_MAX\<close>.
\<close>

definition nth_speed :: "headers \<Rightarrow> nat \<Rightarrow> u8" where
  "nth_speed H n =
     MTBBUS_SPEED_38400 (module H)
       + of_nat (n mod (unat (MTBBUS_SPEED_MAX (module H)) - unat (MTBBUS_SPEED_38400 (module H)) + 1))"

text \<open>Button events, received frames, and the number of timer ticks among some events.\<close>

fun is_button :: "event \<Rightarrow> bool" where
  "is_button BTN_DOWN = True"
| "is_button BTN_UP = True"
| "is_button e = False"


fun is_tick :: "event \<Rightarrow> bool" where
  "is_tick (TIMER3 missed) = True"
| "is_tick e = False"

definition ticks :: "event list \<Rightarrow> nat" where
  "ticks es = length (filter is_tick es)"



section \<open>Basic facts\<close>

lemma mosi_distinct_rev:
  "mosi_distinct H \<Longrightarrow>
     distinct (rev [MTBBUS_CMD_MOSI_MODULE_INQUIRY (mosi H), MTBBUS_CMD_MOSI_INFO_REQ (mosi H),
       MTBBUS_CMD_MOSI_SET_CONFIG (mosi H), MTBBUS_CMD_MOSI_GET_CONFIG (mosi H),
       MTBBUS_CMD_MOSI_BEACON (mosi H), MTBBUS_CMD_MOSI_GET_INPUT (mosi H),
       MTBBUS_CMD_MOSI_SET_OUTPUT (mosi H), MTBBUS_CMD_MOSI_RESET_OUTPUTS (mosi H),
       MTBBUS_CMD_MOSI_CHANGE_ADDR (mosi H), MTBBUS_CMD_MOSI_CHANGE_SPEED (mosi H),
       MTBBUS_CMD_MOSI_FWUPGD_REQUEST (mosi H), MTBBUS_CMD_MOSI_REBOOT (mosi H),
       MTBBUS_CMD_MOSI_DIAG_VALUE_REQ (mosi H)])"
  by (simp only: mosi_distinct_def distinct_rev)

lemma mosi_switch_simps:
  assumes "mosi_distinct H"
  shows "mosi_switch H (MTBBUS_CMD_MOSI_MODULE_INQUIRY (mosi H)) = CASE_MODULE_INQUIRY"
    and "mosi_switch H (MTBBUS_CMD_MOSI_INFO_REQ (mosi H)) = CASE_INFO_REQ"
    and "mosi_switch H (MTBBUS_CMD_MOSI_SET_CONFIG (mosi H)) = CASE_SET_CONFIG"
    and "mosi_switch H (MTBBUS_CMD_MOSI_GET_CONFIG (mosi H)) = CASE_GET_CONFIG"
    and "mosi_switch H (MTBBUS_CMD_MOSI_BEACON (mosi H)) = CASE_BEACON"
    and "mosi_switch H (MTBBUS_CMD_MOSI_GET_INPUT (mosi H)) = CASE_GET_INPUT"
    and "mosi_switch H (MTBBUS_CMD_MOSI_SET_OUTPUT (mosi H)) = CASE_SET_OUTPUT"
    and "mosi_switch H (MTBBUS_CMD_MOSI_RESET_OUTPUTS (mosi H)) = CASE_RESET_OUTPUTS"
    and "mosi_switch H (MTBBUS_CMD_MOSI_CHANGE_ADDR (mosi H)) = CASE_CHANGE_ADDR"
    and "mosi_switch H (MTBBUS_CMD_MOSI_CHANGE_SPEED (mosi H)) = CASE_CHANGE_SPEED"
    and "mosi_switch H (MTBBUS_CMD_MOSI_FWUPGD_REQUEST (mosi H)) = CASE_FWUPGD_REQUEST"
    and "mosi_switch H (MTBBUS_CMD_MOSI_REBOOT (mosi H)) = CASE_REBOOT"
    and "mosi_switch H (MTBBUS_CMD_MOSI_DIAG_VALUE_REQ (mosi H)) = CASE_DIAG_VALUE_REQ"
  using mosi_distinct_rev [OF assms] by (simp_all add: mosi_switch_def)

lemma dv_switch_STATE:
  "dv_distinct H \<Longrightarrow> dv_switch H (MTBBUS_DV_STATE (dv H)) = DV_STATE"
  by (auto simp: dv_switch_def dv_distinct_def)

lemma upt_0_2: "[0..<2] = [0, 1::nat]"
  by (simp add: numeral_2_eq_2)

lemma upt_0_3: "[0..<3] = [0, 1, 2::nat]"
  by (simp add: numeral_3_eq_3)

lemma upt_0_4: "[0..<4] = [0, 1, 2, 3::nat]"
  by (simp add: eval_nat_numeral)

lemma frame_of_1: "b 0 = 1 \<Longrightarrow> frame_of b = [1, b 1]"
  by (simp add: frame_of_def upt_0_2)

lemma frame_of_2: "b 0 = 2 \<Longrightarrow> frame_of b = [2, b 1, b 2]"
  by (simp add: frame_of_def upt_0_3)

lemma frame_of_3: "b 0 = 3 \<Longrightarrow> frame_of b = [3, b 1, b 2, b 3]"
  by (simp add: frame_of_def upt_0_4)

text \<open>Each response routine as one update of the state.\<close>

lemma mtbbus_send_ack_eq:
  "mtbbus_send_ack H s =
     s\<lparr>mtbbus_output_buf := (mtbbus_output_buf s)(0 := 1, 1 := MTBBUS_CMD_MISO_ACK (miso H)),
       calls := calls s @ [Mtbbus_send_buf_autolen (frame_ACK H)],
       trace := trace s @ [Call (Mtbbus_send_buf_autolen (frame_ACK H))]\<rparr>"
  by (simp add: mtbbus_send_ack_def buf_put_def mtbbus_send_buf_autolen_def frame_of_1 frame_ACK_def)

lemma mtbbus_send_error_eq:
  "mtbbus_send_error H c s =
     s\<lparr>mtbbus_output_buf :=
         (mtbbus_output_buf s)(0 := 2, 1 := MTBBUS_CMD_MISO_ERROR (miso H), 2 := c),
       calls := calls s @ [Mtbbus_send_buf_autolen (frame_ERROR H c)],
       trace := trace s @ [Call (Mtbbus_send_buf_autolen (frame_ERROR H c))]\<rparr>"
  by (simp add: mtbbus_send_error_def buf_put_def mtbbus_send_buf_autolen_def frame_of_2
      frame_ERROR_def)

lemma mtbbus_send_inputs_eq:
  "mtbbus_send_inputs H c s =
     s\<lparr>mtbbus_output_buf :=
         (mtbbus_output_buf s)(0 := 3, 1 := c, 2 := input_bytes s ! 0, 3 := input_bytes s ! 1),
       calls := calls s @ [Mtbbus_send_buf_autolen (3 # c # input_bytes s)],
       trace := trace s @ [Call (Mtbbus_send_buf_autolen (3 # c # input_bytes s))]\<rparr>"
  by (simp add: mtbbus_send_inputs_def buf_put_def mtbbus_send_buf_autolen_def frame_of_3
      input_bytes_def)

lemma send_diag_value_STATE_eq:
  "dv_distinct H \<Longrightarrow>
   send_diag_value H (MTBBUS_DV_STATE (dv H)) s =
     s\<lparr>mtbbus_output_buf :=
         (mtbbus_output_buf s)(1 := MTBBUS_CMD_MISO_DIAG_VALUE (miso H), 2 := MTBBUS_DV_STATE (dv H),
            0 := 3, 3 := (if mtbbus_warn_flags s > 0 then 2 else 0)),
       calls := calls s @ [Mtbbus_send_buf_autolen (frame_DIAG_STATE H s)],
       trace := trace s @ [Call (Mtbbus_send_buf_autolen (frame_DIAG_STATE H s))]\<rparr>"
  by (simp add: send_diag_value_def dv_switch_STATE buf_put_def mtbbus_send_buf_autolen_def
      frame_of_3 frame_DIAG_STATE_def)

lemma received_prologue_eq:
  "received_prologue s =
     s\<lparr>error_bad_mtbbus_polarity := False,
       led_green := (led_gr_counter s = 0 \<or> led_green s),
       led_gr_counter := (if led_gr_counter s = 0 then LED_GR_ON else led_gr_counter s),
       mtbbus_timeout := 0,
       mtbbus_auto_speed_in_progress := False,
       config_mtbbus_speed :=
         (if mtbbus_auto_speed_in_progress s then mtbbus_speed s else config_mtbbus_speed s),
       config_write := (mtbbus_auto_speed_in_progress s \<or> config_write s),
       led_blue := (\<not> mtbbus_auto_speed_in_progress s \<and> led_blue s),
       trace := trace s @ (if mtbbus_auto_speed_in_progress s
                           then [Store Config_mtbbus_speed, Store Config_write] else [])\<rparr>"
  by (simp add: received_prologue_def mtbbus_auto_speed_received_def Let_def)

lemma mtbbus_received_initialized:
  "initialized s \<Longrightarrow>
   mtbbus_received H broadcast command_code data s =
     (case mosi_switch H command_code of
        CASE_MODULE_INQUIRY \<Rightarrow> case_MODULE_INQUIRY H broadcast data (received_prologue s)
      | CASE_INFO_REQ \<Rightarrow> case_INFO_REQ H broadcast (received_prologue s)
      | CASE_SET_CONFIG \<Rightarrow> case_SET_CONFIG H broadcast data (received_prologue s)
      | CASE_GET_CONFIG \<Rightarrow> case_GET_CONFIG H broadcast (received_prologue s)
      | CASE_BEACON \<Rightarrow> case_BEACON H broadcast data (received_prologue s)
      | CASE_GET_INPUT \<Rightarrow> case_GET_INPUT H broadcast (received_prologue s)
      | CASE_SET_OUTPUT \<Rightarrow> case_SET_OUTPUT H broadcast data (received_prologue s)
      | CASE_RESET_OUTPUTS \<Rightarrow> case_RESET_OUTPUTS H broadcast (received_prologue s)
      | CASE_CHANGE_ADDR \<Rightarrow> case_CHANGE_ADDR H broadcast data (received_prologue s)
      | CASE_CHANGE_SPEED \<Rightarrow> case_CHANGE_SPEED H broadcast data (received_prologue s)
      | CASE_FWUPGD_REQUEST \<Rightarrow> case_FWUPGD_REQUEST H broadcast data (received_prologue s)
      | CASE_REBOOT \<Rightarrow> case_REBOOT H broadcast (received_prologue s)
      | CASE_DIAG_VALUE_REQ \<Rightarrow> case_DIAG_VALUE_REQ H broadcast data (received_prologue s)
      | CASE_default \<Rightarrow> INVALID_MSG H broadcast (received_prologue s))"
  by (simp add: mtbbus_received_def Let_def)

text \<open>Definitions unfolded when the model is evaluated on a concrete input.\<close>

lemmas engine_defs =
  mtbbus_received_def received_prologue_def mosi_switch_def dv_switch_def
  case_MODULE_INQUIRY_def case_INFO_REQ_def case_SET_CONFIG_def case_GET_CONFIG_def
  case_BEACON_def case_GET_INPUT_def case_SET_OUTPUT_def case_RESET_OUTPUTS_def
  case_CHANGE_ADDR_def case_CHANGE_SPEED_def case_FWUPGD_REQUEST_def case_REBOOT_def
  case_DIAG_VALUE_REQ_def INVALID_MSG_def
  mtbbus_send_ack_def mtbbus_send_inputs_def mtbbus_send_error_def send_diag_value_def
  buf_put_def buf_memcpy_def mtbbus_send_buf_autolen_def frame_of_def mtbbus_set_speed_def
  outputs_set_zipped_def outputs_set_full_def config_boot_fwupgd_def goto_bootloader_def
  mtbbus_auto_speed_received_def LED_GR_ON_def
  upt_0_2 upt_0_3 upt_0_4

lemmas example_defs = example_headers_def ready_def power_on_def on_initialized_def

lemma example_headers_ok:
  "mosi_distinct example_headers" "dv_distinct example_headers" "speeds_ok example_headers"
  by (simp_all add: mosi_distinct_def dv_distinct_def speeds_ok_def example_headers_def)

lemma ready_initialized: "initialized ready"
  by (simp add: example_defs)

section \<open>Runs\<close>

lemma run_Nil: "run H s [] = s"
  by (simp add: run_def)

lemma run_Cons: "run H s (e # es) = run H (step H s e) es"
  by (simp add: run_def)

lemma run_snoc: "run H s (es @ [e]) = step H (run H s es) e"
  by (simp add: run_def)

lemma run_append: "run H s (es @ fs) = run H (run H s es) fs"
  by (simp add: run_def)

section \<open>What the dispatcher leaves alone\<close>

lemma send_diag_value_keeps:
  "initialized (send_diag_value H i s) = initialized s"
  "init_counter (send_diag_value H i s) = init_counter s"
  "btn_pressed (send_diag_value H i s) = btn_pressed s"
  "btn_press_time (send_diag_value H i s) = btn_press_time s"
  "btn_fired (send_diag_value H i s) = btn_fired s"
  by (cases "dv_switch H i";
      simp add: send_diag_value_def buf_put_def buf_memcpy_def mtbbus_send_buf_autolen_def Let_def)+

lemma mtbbus_received_keeps:
  "initialized (mtbbus_received H b c d s) = initialized s"
  "init_counter (mtbbus_received H b c d s) = init_counter s"
  "btn_pressed (mtbbus_received H b c d s) = btn_pressed s"
  "btn_press_time (mtbbus_received H b c d s) = btn_press_time s"
  "btn_fired (mtbbus_received H b c d s) = btn_fired s"
  by (cases "initialized s"; cases "mosi_switch H c";
      simp add: mtbbus_received_def Let_def received_prologue_eq
        case_MODULE_INQUIRY_def case_INFO_REQ_def case_SET_CONFIG_def case_GET_CONFIG_def
        case_BEACON_def case_GET_INPUT_def case_SET_OUTPUT_def case_RESET_OUTPUTS_def
        case_CHANGE_ADDR_def case_CHANGE_SPEED_def case_FWUPGD_REQUEST_def case_REBOOT_def
        case_DIAG_VALUE_REQ_def INVALID_MSG_def
        mtbbus_send_ack_eq mtbbus_send_error_eq mtbbus_send_inputs_eq send_diag_value_keeps
        buf_put_def buf_memcpy_def mtbbus_send_buf_autolen_def mtbbus_set_speed_def
        outputs_set_zipped_def outputs_set_full_def config_boot_fwupgd_def goto_bootloader_def)+


section \<open>The initialization gate\<close>

lemma gate_step:
  assumes "initialized s \<longrightarrow> init_counter s = 0xFF"
  shows "initialized (step H s e) \<longrightarrow> init_counter (step H s e) = 0xFF"
proof (cases e)
  case (TIMER3 missed)
  with assms show ?thesis
    by (auto simp: TIMER3_COMPA_vect_def Let_def INIT_TIME_def)
next
  case MAIN_LOOP
  with assms show ?thesis
    by (auto simp: main_loop_pass_def main_btn_check_def main_auto_speed_check_def
        main_init_check_def on_initialized_def btn_long_press_def autodetect_mtbbus_speed_def
        mtbbus_auto_speed_next_def mtbbus_set_speed_def Let_def)
next
  case BTN_DOWN
  with assms show ?thesis
    by (simp add: btn_on_pressed_def)
next
  case BTN_UP
  with assms show ?thesis
    by (auto simp: btn_on_depressed_def btn_short_press_def autodetect_mtbbus_speed_stop_def
        led_red_ok_def update_mtbbus_polarity_def Let_def)
next
  case (RECEIVED b c d)
  with assms show ?thesis
    by (simp add: mtbbus_received_keeps)
qed

lemma gate_run:
  "initialized s \<longrightarrow> init_counter s = 0xFF \<Longrightarrow>
   initialized (run H s es) \<longrightarrow> init_counter (run H s es) = 0xFF"
proof (induction es rule: rev_induct)
  case Nil
  then show ?case by (simp add: run_Nil)
next
  case (snoc e es)
  then show ?case by (simp add: run_snoc gate_step)
qed

text \<open>
  C3. A frame received while \<open>initialized\<close> is false leaves the whole state as it
  was: no response, no call, no change. And in every state reached from a consistent one
  (where \<open>initialized\<close> holds only after the counter was set to 0xFF) by any events, a
  tick counter still below \<open>INIT_TIME\<close> means that the gate is closed and frames are
  dropped.
\<close>

theorem frames_dropped_until_initialized:
  "(\<not> initialized s \<longrightarrow> mtbbus_received H broadcast command_code data s = s) \<and>
   ((initialized s0 \<longrightarrow> init_counter s0 = 0xFF) \<and> init_counter (run H s0 es) < INIT_TIME \<longrightarrow>
      \<not> initialized (run H s0 es) \<and>
      mtbbus_received H broadcast command_code data (run H s0 es) = run H s0 es)"
proof (intro conjI impI)
  assume "\<not> initialized s"
  then show "mtbbus_received H broadcast command_code data s = s"
    by (simp add: mtbbus_received_def)
next
  assume a: "(initialized s0 \<longrightarrow> init_counter s0 = 0xFF) \<and> init_counter (run H s0 es) < INIT_TIME"
  then have "initialized (run H s0 es) \<longrightarrow> init_counter (run H s0 es) = 0xFF"
    using gate_run by blast
  with a show n: "\<not> initialized (run H s0 es)"
    by (auto simp: INIT_TIME_def)
  then show "mtbbus_received H broadcast command_code data (run H s0 es) = run H s0 es"
    by (simp add: mtbbus_received_def)
qed

lemmas loop_defs =
  run_def TIMER3_COMPA_vect_def main_loop_pass_def main_btn_check_def main_auto_speed_check_def
  main_init_check_def on_initialized_def btn_long_press_def btn_short_press_def
  btn_on_pressed_def btn_on_depressed_def autodetect_mtbbus_speed_def
  autodetect_mtbbus_speed_stop_def mtbbus_auto_speed_next_def mtbbus_addressed_def
  led_red_ok_def update_mtbbus_polarity_def
  INIT_TIME_def BTN_PRESS_1S_def MTBBUS_TIMEOUT_MAX_def MTBBUS_AUTO_SPEED_TIMEOUT_def
  LED_RED_OK_ON_def

theorem frames_dropped_until_initialized_witness:
  "mtbbus_received example_headers False (MTBBUS_CMD_MOSI_GET_INPUT (mosi example_headers)) []
       power_on = power_on \<and>
   init_counter (run example_headers power_on [TIMER3 False, MAIN_LOOP, TIMER3 False]) < INIT_TIME \<and>
   mtbbus_received example_headers False (MTBBUS_CMD_MOSI_GET_INPUT (mosi example_headers)) []
       (run example_headers power_on [TIMER3 False, MAIN_LOOP, TIMER3 False])
     = run example_headers power_on [TIMER3 False, MAIN_LOOP, TIMER3 False]"
proof -
  have 1: "\<not> initialized power_on"
    by (simp add: power_on_def)
  have 2: "init_counter (run example_headers power_on [TIMER3 False, MAIN_LOOP, TIMER3 False]) < INIT_TIME"
    by (simp add: loop_defs power_on_def example_headers_def)
  show ?thesis
    using 1 2
      frames_dropped_until_initialized [of power_on example_headers False
        "MTBBUS_CMD_MOSI_GET_INPUT (mosi example_headers)" "[]" power_on
        "[TIMER3 False, MAIN_LOOP, TIMER3 False]"]
    by simp
qed

section \<open>Change of speed\<close>

text \<open>
  C10. A CHANGE_SPEED request with at least one payload byte \<open>b\<close>, unicast or broadcast,
  whatever the value of \<open>b\<close>: the transport is switched to \<open>b\<close>, \<open>b\<close> is stored as the
  configured speed and the configuration is marked for writing; the switch is the first call,
  and the acknowledgment follows it only when the request is unicast.
\<close>

theorem change_speed_applied_unchecked:
  assumes "initialized s" and "mosi_distinct H"
  shows "let s' = mtbbus_received H broadcast (MTBBUS_CMD_MOSI_CHANGE_SPEED (mosi H)) (b # rest) s
         in mtbbus_speed s' = b \<and> config_mtbbus_speed s' = b \<and> config_write s' \<and>
            calls s' = calls s @ Mtbbus_set_speed b #
              (if broadcast then [] else [Mtbbus_send_buf_autolen (frame_ACK H)])"
  using assms
  by (simp add: mtbbus_received_initialized mosi_switch_simps case_CHANGE_SPEED_def Let_def
      mtbbus_set_speed_def received_prologue_eq mtbbus_send_ack_eq)

theorem change_speed_applied_unchecked_witness:
  "mtbbus_speed (mtbbus_received example_headers True
      (MTBBUS_CMD_MOSI_CHANGE_SPEED (mosi example_headers)) [0xEE] ready) = 0xEE \<and>
   config_mtbbus_speed (mtbbus_received example_headers True
      (MTBBUS_CMD_MOSI_CHANGE_SPEED (mosi example_headers)) [0xEE] ready) = 0xEE \<and>
   calls (mtbbus_received example_headers True
      (MTBBUS_CMD_MOSI_CHANGE_SPEED (mosi example_headers)) [0xEE] ready) = [Mtbbus_set_speed 0xEE] \<and>
   calls (mtbbus_received example_headers False
      (MTBBUS_CMD_MOSI_CHANGE_SPEED (mosi example_headers)) [0xEE] ready)
     = [Mtbbus_set_speed 0xEE, Mtbbus_send_buf_autolen [1, 1]]"
  using change_speed_applied_unchecked [OF ready_initialized example_headers_ok(1), of True "0xEE" "[]"]
    change_speed_applied_unchecked [OF ready_initialized example_headers_ok(1), of False "0xEE" "[]"]
  by (simp add: Let_def frame_ACK_def example_defs)

section \<open>Set configuration\<close>

text \<open>
  C5. With \<^verbatim>\<open>NO_OUTPUTS + NO_INPUTS/2 = 24\<close>: a SET_CONFIG request with a shorter payload
  leaves both tables as they were, and the only call is the ERROR response with the code
  "unknown command" when the request is unicast, none when it is broadcast. A unicast request
  whose payload starts with \<open>safe\<close> (\<^verbatim>\<open>NO_OUTPUTS\<close> bytes) and \<open>delays\<close>
  (\<^verbatim>\<open>NO_INPUTS/2\<close> bytes) makes these the two tables (of their declared sizes), sets
  \<open>config_write\<close>, and its only call is the acknowledgment.
\<close>

theorem set_config_short_or_stored:
  assumes "initialized s" and "mosi_distinct H"
    and "NO_OUTPUTS (module H) + NO_INPUTS (module H) div 2 = 24"
  shows "(length data < NO_OUTPUTS (module H) + NO_INPUTS (module H) div 2 \<longrightarrow>
           (let s' = mtbbus_received H broadcast (MTBBUS_CMD_MOSI_SET_CONFIG (mosi H)) data s
            in config_safe_state s' = config_safe_state s \<and>
               config_inputs_delay s' = config_inputs_delay s \<and>
               calls s' = calls s @
                 (if broadcast then []
                  else [Mtbbus_send_buf_autolen
                          (frame_ERROR H (MTBBUS_ERROR_UNKNOWN_COMMAND (miso H)))]))) \<and>
         (length safe = NO_OUTPUTS (module H) \<and> length delays = NO_INPUTS (module H) div 2 \<and>
          length (config_safe_state s) = NO_OUTPUTS (module H) \<and>
          length (config_inputs_delay s) = NO_INPUTS (module H) div 2 \<longrightarrow>
           (let s' = mtbbus_received H False (MTBBUS_CMD_MOSI_SET_CONFIG (mosi H))
                       (safe @ delays @ rest) s
            in config_safe_state s' = safe \<and> config_inputs_delay s' = delays \<and>
               config_write s' \<and>
               calls s' = calls s @ [Mtbbus_send_buf_autolen (frame_ACK H)]))"
  using assms
  by (auto simp: mtbbus_received_initialized mosi_switch_simps case_SET_CONFIG_def Let_def
      INVALID_MSG_def received_prologue_eq mtbbus_send_ack_eq mtbbus_send_error_eq
      memcpy_table_def)


theorem set_config_short_or_stored_witness:
  "config_safe_state (mtbbus_received example_headers False
      (MTBBUS_CMD_MOSI_SET_CONFIG (mosi example_headers)) [1, 2, 3] ready) = config_safe_state ready \<and>
   config_inputs_delay (mtbbus_received example_headers False
      (MTBBUS_CMD_MOSI_SET_CONFIG (mosi example_headers)) [1, 2, 3] ready) = config_inputs_delay ready \<and>
   calls (mtbbus_received example_headers False
      (MTBBUS_CMD_MOSI_SET_CONFIG (mosi example_headers)) [1, 2, 3] ready)
     = [Mtbbus_send_buf_autolen [2, 2, 1]] \<and>
   config_safe_state (mtbbus_received example_headers False
      (MTBBUS_CMD_MOSI_SET_CONFIG (mosi example_headers)) (replicate 16 1 @ replicate 8 2 @ [9]) ready)
     = replicate 16 1 \<and>
   config_inputs_delay (mtbbus_received example_headers False
      (MTBBUS_CMD_MOSI_SET_CONFIG (mosi example_headers)) (replicate 16 1 @ replicate 8 2 @ [9]) ready)
     = replicate 8 2 \<and>
   config_write (mtbbus_received example_headers False
      (MTBBUS_CMD_MOSI_SET_CONFIG (mosi example_headers)) (replicate 16 1 @ replicate 8 2 @ [9]) ready) \<and>
   calls (mtbbus_received example_headers False
      (MTBBUS_CMD_MOSI_SET_CONFIG (mosi example_headers)) (replicate 16 1 @ replicate 8 2 @ [9]) ready)
     = [Mtbbus_send_buf_autolen [1, 1]]"
proof -
  have n: "NO_OUTPUTS (module example_headers) + NO_INPUTS (module example_headers) div 2 = 24"
    by (simp add: example_headers_def)
  have l: "length (config_safe_state ready) = NO_OUTPUTS (module example_headers)"
    "length (config_inputs_delay ready) = NO_INPUTS (module example_headers) div 2"
    "length (replicate 16 (1::u8)) = NO_OUTPUTS (module example_headers)"
    "length (replicate 8 (2::u8)) = NO_INPUTS (module example_headers) div 2"
    by (simp_all add: example_defs)
  have c: "calls ready = []"
    by (simp add: example_defs)
  have f: "frame_ERROR example_headers (MTBBUS_ERROR_UNKNOWN_COMMAND (miso example_headers)) = [2, 2, 1]"
    "frame_ACK example_headers = [1, 1]"
    by (simp_all add: frame_ERROR_def frame_ACK_def example_headers_def)
  show ?thesis
    using set_config_short_or_stored [OF ready_initialized example_headers_ok(1) n,
        of "[1, 2, 3]" False "replicate 16 1" "replicate 8 2" "[9]"] l
    by (simp add: Let_def n c f)
qed

section \<open>Broadcast requests\<close>

lemma responses_append: "responses (cs @ ds) = responses cs @ responses ds"
  by (induction cs rule: responses.induct) simp_all

text \<open>
  Every broadcast request but a DIAG_VALUE_REQ with a payload is handled without a response.
\<close>

lemma broadcast_silent_unless_diag:
  assumes "mosi_switch H command_code \<noteq> CASE_DIAG_VALUE_REQ \<or> data = []"
  shows "responses (calls (mtbbus_received H True command_code data s)) = responses (calls s)"
proof (cases "initialized s")
  case False
  then show ?thesis by (simp add: mtbbus_received_def)
next
  case True
  with assms show ?thesis
    by (cases "mosi_switch H command_code";
        simp add: mtbbus_received_initialized received_prologue_eq responses_append
          case_MODULE_INQUIRY_def case_INFO_REQ_def case_SET_CONFIG_def case_GET_CONFIG_def
          case_BEACON_def case_GET_INPUT_def case_SET_OUTPUT_def case_RESET_OUTPUTS_def
          case_CHANGE_ADDR_def case_CHANGE_SPEED_def case_FWUPGD_REQUEST_def case_REBOOT_def
          case_DIAG_VALUE_REQ_def INVALID_MSG_def Let_def
          mtbbus_set_speed_def outputs_set_full_def goto_bootloader_def)
qed

text \<open>
  C2. The claim fails on a broadcast DIAG_VALUE_REQ: the case has no test of \<open>broadcast\<close>,
  so for a broadcast request for the diagnostic value \<^verbatim>\<open>MTBBUS_DV_VERSION\<close> the
  dispatcher hands a DIAG_VALUE frame to the transport.
\<close>

theorem broadcast_diag_value_req_is_answered:
  "responses (calls (mtbbus_received example_headers True
      (MTBBUS_CMD_MOSI_DIAG_VALUE_REQ (mosi example_headers))
      [MTBBUS_DV_VERSION (dv example_headers)] ready))
     = [[3, MTBBUS_CMD_MISO_DIAG_VALUE (miso example_headers),
         MTBBUS_DV_VERSION (dv example_headers), 0x10]]"
  by (simp add: engine_defs example_defs)

section \<open>Rejected requests\<close>

text \<open>
  A request that the table of the specification rejects, other than a broadcast
  DIAG_VALUE_REQ with a payload, gets the ERROR response with the code "unknown command" when
  it is unicast and no call at all when it is broadcast.
\<close>

lemma rejected_request_response:
  assumes "initialized s"
    and "NO_OUTPUTS (module H) + NO_INPUTS (module H) div 2 = 24"
    and "spec_rejected H broadcast command_code data"
    and "\<not> (broadcast \<and> mosi_switch H command_code = CASE_DIAG_VALUE_REQ \<and> data \<noteq> [])"
  shows "calls (mtbbus_received H broadcast command_code data s) =
           calls s @ (if broadcast then []
                      else [Mtbbus_send_buf_autolen
                              (frame_ERROR H (MTBBUS_ERROR_UNKNOWN_COMMAND (miso H)))])"
  using assms
  by (cases "mosi_switch H command_code";
      auto simp: spec_rejected_def mtbbus_received_initialized received_prologue_eq
        case_MODULE_INQUIRY_def case_INFO_REQ_def case_SET_CONFIG_def case_GET_CONFIG_def
        case_BEACON_def case_GET_INPUT_def case_SET_OUTPUT_def case_RESET_OUTPUTS_def
        case_CHANGE_ADDR_def case_CHANGE_SPEED_def case_FWUPGD_REQUEST_def case_REBOOT_def
        case_DIAG_VALUE_REQ_def INVALID_MSG_def Let_def mtbbus_send_error_eq)

text \<open>
  C6. The claim fails on the same request as C2: the table of the specification does not allow
  a DIAG_VALUE_REQ to be broadcast, so a broadcast one is rejected and must get no answer; the
  dispatcher answers it with the diagnostic value \<^verbatim>\<open>MTBBUS_DV_STATE\<close>.
\<close>

theorem rejected_broadcast_diag_value_req_is_answered:
  "spec_rejected example_headers True (MTBBUS_CMD_MOSI_DIAG_VALUE_REQ (mosi example_headers))
      [MTBBUS_DV_STATE (dv example_headers)] \<and>
   calls (mtbbus_received example_headers True
      (MTBBUS_CMD_MOSI_DIAG_VALUE_REQ (mosi example_headers))
      [MTBBUS_DV_STATE (dv example_headers)] ready)
     = [Mtbbus_send_buf_autolen
          [3, MTBBUS_CMD_MISO_DIAG_VALUE (miso example_headers),
           MTBBUS_DV_STATE (dv example_headers), 0]]"
  by (simp add: spec_rejected_def engine_defs example_defs)

section \<open>Order of response and effect\<close>

lemma frame_of_echo:
  assumes "length data < 255" and "b 0 = of_nat (length data + 1)" and "b 1 = c"
    and "\<And>i. 2 \<le> i \<Longrightarrow> i < 2 + length data \<Longrightarrow> b i = data ! (i - 2)"
  shows "frame_of b = of_nat (length data + 1) # c # data"
proof -
  have u: "unat (b 0) = length data + 1"
  proof -
    have "unat (of_nat (length data + 1) :: u8) = (length data + 1) mod 2 ^ LENGTH(8)"
      by (rule unat_of_nat)
    also have "\<dots> = length data + 1"
      using assms(1) by simp
    finally show ?thesis
      by (simp only: assms(2))
  qed
  have "map b [0..<Suc (unat (b 0))] = b 0 # c # data"
  proof (rule nth_equalityI)
    show "length (map b [0..<Suc (unat (b 0))]) = length (b 0 # c # data)"
      by (simp add: u)
  next
    fix i
    assume "i < length (map b [0..<Suc (unat (b 0))])"
    then have i: "i < length data + 2"
      by (simp add: u)
    have "map b [0..<Suc (unat (b 0))] ! i = b i"
      using i by (simp add: u del: upt_Suc)
    also have "b i = (b 0 # c # data) ! i"
    proof (cases "i < 2")
      case True
      then have "i = 0 \<or> i = 1" by auto
      then show ?thesis using assms(3) by auto
    next
      case False
      then obtain j where j: "i = Suc (Suc j)"
        by (metis Suc_1 not_less_eq old.nat.exhaust zero_less_Suc numeral_2_eq_2)
      with i assms(4) [of i] show ?thesis by simp
    qed
    finally show "map b [0..<Suc (unat (b 0))] ! i = (b 0 # c # data) ! i" .
  qed
  then show ?thesis
    by (simp add: frame_of_def assms(2))
qed

text \<open>
  C7, as amended. The trace of a request behind the open gate, after the statements before the
  switch. The response is staged first by four unicast requests: SET_OUTPUT with at least 4
  payload bytes (the frame in the buffer is handed over, then the output driver is called, then
  the change flag is set; the buffer holds the code OUTPUT_SET and the payload, and with fewer
  than 255 payload bytes, so that the length byte holds, the frame is the echo of the payload),
  SET_CONFIG with at least 24 payload bytes (the acknowledgment, then the two table copies and
  \<^verbatim>\<open>config_write\<close>), RESET_OUTPUTS (the acknowledgment, then the safe state) and REBOOT (the
  acknowledgment is staged and \<^verbatim>\<open>goto_bootloader\<close> is not run: it is registered as the
  callback of the transport). The effect comes first in three: BEACON stores the flag, then
  acknowledges; CHANGE_SPEED stores the speed, sets \<^verbatim>\<open>config_write\<close> and switches the
  transport, then acknowledges; FWUPGD_REQUEST marks the upgrade and registers the callback,
  then acknowledges.
\<close>

theorem response_order_of_commands:
  assumes "initialized s" and "mosi_distinct H"
  shows "(24 \<le> length data \<longrightarrow>
            trace (mtbbus_received H False (MTBBUS_CMD_MOSI_SET_CONFIG (mosi H)) data s) =
              trace (received_prologue s) @
                [Call (Mtbbus_send_buf_autolen (frame_ACK H)), Store Config_safe_state,
                 Store Config_inputs_delay, Store Config_write]) \<and>
         (4 \<le> length data \<longrightarrow>
           (let s' = mtbbus_received H False (MTBBUS_CMD_MOSI_SET_OUTPUT (mosi H)) data s
            in trace s' =
                 trace (received_prologue s) @
                   [Call (Mtbbus_send_buf_autolen (frame_of (mtbbus_output_buf s'))),
                    Call (Outputs_set_zipped data), Store Outputs_changed_when_setting_scom] \<and>
               mtbbus_output_buf s' 1 = MTBBUS_CMD_MISO_OUTPUT_SET (miso H) \<and>
               map (\<lambda>i. mtbbus_output_buf s' (2 + i)) [0..<length data] = data \<and>
               (length data < 255 \<longrightarrow>
                  frame_of (mtbbus_output_buf s') =
                    of_nat (length data + 1) # MTBBUS_CMD_MISO_OUTPUT_SET (miso H) # data))) \<and>
         trace (mtbbus_received H False (MTBBUS_CMD_MOSI_RESET_OUTPUTS (mosi H)) data s) =
           trace (received_prologue s) @
             [Call (Mtbbus_send_buf_autolen (frame_ACK H)),
              Call (Outputs_set_full (config_safe_state s))] \<and>
         (let s' = mtbbus_received H False (MTBBUS_CMD_MOSI_REBOOT (mosi H)) data s
          in trace s' =
               trace (received_prologue s) @
                 [Store Mtbbus_on_sent, Call (Mtbbus_send_buf_autolen (frame_ACK H))] \<and>
             mtbbus_on_sent s' = Some Goto_bootloader \<and> halted s' = halted s) \<and>
         trace (mtbbus_received H False (MTBBUS_CMD_MOSI_BEACON (mosi H)) (b # rest) s) =
           trace (received_prologue s) @
             [Store Beacon, Call (Mtbbus_send_buf_autolen (frame_ACK H))] \<and>
         trace (mtbbus_received H False (MTBBUS_CMD_MOSI_CHANGE_SPEED (mosi H)) (b # rest) s) =
           trace (received_prologue s) @
             [Store Config_mtbbus_speed, Store Config_write, Call (Mtbbus_set_speed b),
              Call (Mtbbus_send_buf_autolen (frame_ACK H))] \<and>
         trace (mtbbus_received H False (MTBBUS_CMD_MOSI_FWUPGD_REQUEST (mosi H)) (b # rest) s) =
           trace (received_prologue s) @
             [Call Config_boot_fwupgd, Store Mtbbus_on_sent,
              Call (Mtbbus_send_buf_autolen (frame_ACK H))]"
proof (intro conjI impI)
  assume d: "24 \<le> length data"
  with assms
  show "trace (mtbbus_received H False (MTBBUS_CMD_MOSI_SET_CONFIG (mosi H)) data s) =
          trace (received_prologue s) @
            [Call (Mtbbus_send_buf_autolen (frame_ACK H)), Store Config_safe_state,
             Store Config_inputs_delay, Store Config_write]"
    by (simp add: mtbbus_received_initialized mosi_switch_simps case_SET_CONFIG_def Let_def
        mtbbus_send_ack_eq)
next
  assume d: "4 \<le> length data"
  let ?s' = "mtbbus_received H False (MTBBUS_CMD_MOSI_SET_OUTPUT (mosi H)) data s"
  note unfold = mtbbus_received_initialized mosi_switch_simps case_SET_OUTPUT_def Let_def
    mtbbus_send_buf_autolen_def outputs_set_zipped_def buf_memcpy_def buf_put_def
  have c: "trace ?s' =
      trace (received_prologue s) @
        [Call (Mtbbus_send_buf_autolen (frame_of (mtbbus_output_buf ?s'))),
         Call (Outputs_set_zipped data), Store Outputs_changed_when_setting_scom]"
    using d assms by (simp add: unfold)
  have b0: "mtbbus_output_buf ?s' 0 = of_nat (length data + 1)"
    and b1: "mtbbus_output_buf ?s' 1 = MTBBUS_CMD_MISO_OUTPUT_SET (miso H)"
    using d assms by (simp_all add: unfold)
  have bi: "mtbbus_output_buf ?s' i = data ! (i - 2)" if "2 \<le> i" and "i < 2 + length data" for i
    using that d assms by (simp add: unfold)
  have m: "map (\<lambda>i. mtbbus_output_buf ?s' (2 + i)) [0..<length data] = data"
    by (rule nth_equalityI) (simp_all add: bi)
  have e: "frame_of (mtbbus_output_buf ?s') =
      of_nat (length data + 1) # MTBBUS_CMD_MISO_OUTPUT_SET (miso H) # data"
    if "length data < 255"
    using that b0 b1 bi by (intro frame_of_echo)
  show "let s' = ?s'
        in trace s' =
             trace (received_prologue s) @
               [Call (Mtbbus_send_buf_autolen (frame_of (mtbbus_output_buf s'))),
                Call (Outputs_set_zipped data), Store Outputs_changed_when_setting_scom] \<and>
           mtbbus_output_buf s' 1 = MTBBUS_CMD_MISO_OUTPUT_SET (miso H) \<and>
           map (\<lambda>i. mtbbus_output_buf s' (2 + i)) [0..<length data] = data \<and>
           (length data < 255 \<longrightarrow>
              frame_of (mtbbus_output_buf s') =
                of_nat (length data + 1) # MTBBUS_CMD_MISO_OUTPUT_SET (miso H) # data)"
    unfolding Let_def using c b1 m e by blast
next
  from assms
  show "trace (mtbbus_received H False (MTBBUS_CMD_MOSI_RESET_OUTPUTS (mosi H)) data s) =
          trace (received_prologue s) @
            [Call (Mtbbus_send_buf_autolen (frame_ACK H)),
             Call (Outputs_set_full (config_safe_state s))]"
    by (simp add: mtbbus_received_initialized mosi_switch_simps case_RESET_OUTPUTS_def Let_def
        mtbbus_send_ack_eq outputs_set_full_def received_prologue_eq)
next
  from assms
  show "let s' = mtbbus_received H False (MTBBUS_CMD_MOSI_REBOOT (mosi H)) data s
        in trace s' =
             trace (received_prologue s) @
               [Store Mtbbus_on_sent, Call (Mtbbus_send_buf_autolen (frame_ACK H))] \<and>
           mtbbus_on_sent s' = Some Goto_bootloader \<and> halted s' = halted s"
    by (simp add: mtbbus_received_initialized mosi_switch_simps case_REBOOT_def Let_def
        mtbbus_send_ack_eq received_prologue_eq)
next
  from assms
  show "trace (mtbbus_received H False (MTBBUS_CMD_MOSI_BEACON (mosi H)) (b # rest) s) =
          trace (received_prologue s) @
            [Store Beacon, Call (Mtbbus_send_buf_autolen (frame_ACK H))]"
    by (simp add: mtbbus_received_initialized mosi_switch_simps case_BEACON_def Let_def
        mtbbus_send_ack_eq)
next
  from assms
  show "trace (mtbbus_received H False (MTBBUS_CMD_MOSI_CHANGE_SPEED (mosi H)) (b # rest) s) =
          trace (received_prologue s) @
            [Store Config_mtbbus_speed, Store Config_write, Call (Mtbbus_set_speed b),
             Call (Mtbbus_send_buf_autolen (frame_ACK H))]"
    by (simp add: mtbbus_received_initialized mosi_switch_simps case_CHANGE_SPEED_def Let_def
        mtbbus_send_ack_eq mtbbus_set_speed_def)
next
  from assms
  show "trace (mtbbus_received H False (MTBBUS_CMD_MOSI_FWUPGD_REQUEST (mosi H)) (b # rest) s) =
          trace (received_prologue s) @
            [Call Config_boot_fwupgd, Store Mtbbus_on_sent,
             Call (Mtbbus_send_buf_autolen (frame_ACK H))]"
    by (simp add: mtbbus_received_initialized mosi_switch_simps case_FWUPGD_REQUEST_def Let_def
        mtbbus_send_ack_eq config_boot_fwupgd_def)
qed

theorem response_order_of_commands_witness:
  "trace (mtbbus_received example_headers False
      (MTBBUS_CMD_MOSI_SET_CONFIG (mosi example_headers)) (replicate 24 1) ready)
     = [Call (Mtbbus_send_buf_autolen [1, 1]), Store Config_safe_state,
        Store Config_inputs_delay, Store Config_write] \<and>
   trace (mtbbus_received example_headers False
      (MTBBUS_CMD_MOSI_SET_OUTPUT (mosi example_headers)) (replicate 24 1) ready)
     = [Call (Mtbbus_send_buf_autolen (25 # 0x12 # replicate 24 1)),
        Call (Outputs_set_zipped (replicate 24 1)), Store Outputs_changed_when_setting_scom] \<and>
   trace (mtbbus_received example_headers False
      (MTBBUS_CMD_MOSI_REBOOT (mosi example_headers)) (replicate 24 1) ready)
     = [Store Mtbbus_on_sent, Call (Mtbbus_send_buf_autolen [1, 1])] \<and>
   \<not> halted (mtbbus_received example_headers False
      (MTBBUS_CMD_MOSI_REBOOT (mosi example_headers)) (replicate 24 1) ready) \<and>
   trace (mtbbus_received example_headers False
      (MTBBUS_CMD_MOSI_BEACON (mosi example_headers)) [1] ready)
     = [Store Beacon, Call (Mtbbus_send_buf_autolen [1, 1])] \<and>
   trace (mtbbus_received example_headers False
      (MTBBUS_CMD_MOSI_FWUPGD_REQUEST (mosi example_headers)) [1] ready)
     = [Call Config_boot_fwupgd, Store Mtbbus_on_sent, Call (Mtbbus_send_buf_autolen [1, 1])]"
proof -
  have p: "trace (received_prologue ready) = []"
    by (simp add: received_prologue_eq example_defs)
  have h: "\<not> halted ready"
    by (simp add: example_defs)
  have f: "frame_ACK example_headers = [1, 1]"
    "MTBBUS_CMD_MISO_OUTPUT_SET (miso example_headers) = 0x12"
    by (simp_all add: frame_ACK_def example_headers_def)
  show ?thesis
    using response_order_of_commands [OF ready_initialized example_headers_ok(1),
        of "replicate 24 1" 1 "[]"] h
    by (simp add: Let_def p f)
qed


text \<open>
  C7, the counterexample: the calls of a unicast CHANGE_SPEED request do not have the
  response first.
\<close>

theorem change_speed_effect_precedes_response:
  "\<not> response_first (calls (mtbbus_received example_headers False
        (MTBBUS_CMD_MOSI_CHANGE_SPEED (mosi example_headers)) [2] ready))"
  by (simp add: response_first_def engine_defs example_defs)

section \<open>A busy output buffer\<close>

text \<open>
  C9, as amended. Only the two response routines of the earlier revision test
  \<^verbatim>\<open>mtbbus_can_fill_output_buf()\<close>: when the buffer cannot be filled they change nothing, and
  otherwise they do what the current routines do. The response routines of the current
  revision write their frame into the buffer and hand it to the transport in every state,
  whatever the test would answer.
\<close>

theorem response_routines_and_busy_buffer:
  "(\<not> mtbbus_can_fill_output_buf s \<longrightarrow>
      mtbbus_send_ack_early H s = s \<and> mtbbus_send_inputs_early H c s = s) \<and>
   (mtbbus_can_fill_output_buf s \<longrightarrow>
      mtbbus_send_ack_early H s = mtbbus_send_ack H s \<and>
      mtbbus_send_inputs_early H c s = mtbbus_send_inputs H c s) \<and>
   calls (mtbbus_send_ack H s) = calls s @ [Mtbbus_send_buf_autolen (frame_ACK H)] \<and>
   calls (mtbbus_send_inputs H c s) = calls s @ [Mtbbus_send_buf_autolen (3 # c # input_bytes s)] \<and>
   calls (mtbbus_send_error H e s) = calls s @ [Mtbbus_send_buf_autolen (frame_ERROR H e)] \<and>
   calls (send_diag_value H i s) =
     calls s @ [Mtbbus_send_buf_autolen (frame_of (mtbbus_output_buf (send_diag_value H i s)))]"
proof -
  have d: "calls (send_diag_value H i s) =
     calls s @ [Mtbbus_send_buf_autolen (frame_of (mtbbus_output_buf (send_diag_value H i s)))]"
    by (cases "dv_switch H i";
        simp add: send_diag_value_def buf_put_def buf_memcpy_def mtbbus_send_buf_autolen_def Let_def)
  have busy: "\<not> mtbbus_can_fill_output_buf s \<longrightarrow>
      mtbbus_send_ack_early H s = s \<and> mtbbus_send_inputs_early H c s = s"
    by (simp add: mtbbus_send_ack_early_def mtbbus_send_inputs_early_def)
  have free: "mtbbus_can_fill_output_buf s \<longrightarrow>
      mtbbus_send_ack_early H s = mtbbus_send_ack H s \<and>
      mtbbus_send_inputs_early H c s = mtbbus_send_inputs H c s"
    by (simp add: mtbbus_send_ack_early_def mtbbus_send_inputs_early_def mtbbus_send_ack_def
        mtbbus_send_inputs_def)
  have now: "calls (mtbbus_send_ack H s) = calls s @ [Mtbbus_send_buf_autolen (frame_ACK H)]"
    "calls (mtbbus_send_inputs H c s) = calls s @ [Mtbbus_send_buf_autolen (3 # c # input_bytes s)]"
    "calls (mtbbus_send_error H e s) = calls s @ [Mtbbus_send_buf_autolen (frame_ERROR H e)]"
    by (simp_all add: mtbbus_send_ack_eq mtbbus_send_inputs_eq mtbbus_send_error_eq)
  from busy free now d show ?thesis
    by blast
qed

theorem response_routines_and_busy_buffer_witness:
  "mtbbus_send_ack_early example_headers (ready\<lparr>mtbbus_can_fill_output_buf := False\<rparr>)
     = ready\<lparr>mtbbus_can_fill_output_buf := False\<rparr> \<and>
   calls (mtbbus_send_error example_headers 1 (ready\<lparr>mtbbus_can_fill_output_buf := False\<rparr>))
     = [Mtbbus_send_buf_autolen [2, 2, 1]]"
  using response_routines_and_busy_buffer
    [of "ready\<lparr>mtbbus_can_fill_output_buf := False\<rparr>" example_headers 0 1 0]
  by (simp add: frame_ERROR_def example_defs)

text \<open>
  C9, the counterexample: with the buffer busy, \<^verbatim>\<open>mtbbus_send_ack\<close> of the current revision
  overwrites the first byte of the buffer and calls the transport.
\<close>

theorem send_ack_writes_busy_buffer:
  "\<not> mtbbus_can_fill_output_buf (ready\<lparr>mtbbus_can_fill_output_buf := False\<rparr>) \<and>
   mtbbus_output_buf (ready\<lparr>mtbbus_can_fill_output_buf := False\<rparr>) 0 = 0 \<and>
   mtbbus_output_buf
     (mtbbus_send_ack example_headers (ready\<lparr>mtbbus_can_fill_output_buf := False\<rparr>)) 0 = 1 \<and>
   calls (mtbbus_send_ack example_headers (ready\<lparr>mtbbus_can_fill_output_buf := False\<rparr>))
     = [Mtbbus_send_buf_autolen [1, 1]]"
  by (simp add: engine_defs example_defs)

section \<open>The change-notification tracker\<close>

lemma received_prologue_tracker:
  "first_scan (received_prologue s) = first_scan s"
  "inputs_logic_state (received_prologue s) = inputs_logic_state s"
  "inputs_old (received_prologue s) = inputs_old s"
  "last_input_changed (received_prologue s) = last_input_changed s"
  "last_diag_changed (received_prologue s) = last_diag_changed s"
  "mtbbus_warn_flags (received_prologue s) = mtbbus_warn_flags s"
  "mtbbus_warn_flags_old (received_prologue s) = mtbbus_warn_flags_old s"
  "calls (received_prologue s) = calls s"
  "frame_INPUT_CHANGED H (received_prologue s) = frame_INPUT_CHANGED H s"
  "frame_DIAG_STATE H (received_prologue s) = frame_DIAG_STATE H s"
  by (simp_all add: received_prologue_eq frame_INPUT_CHANGED_def frame_DIAG_STATE_def
      input_bytes_def)

lemma case_MODULE_INQUIRY_calls:
  assumes "dv_distinct H"
  shows "calls (case_MODULE_INQUIRY H False (b # rest) t) =
           calls t @
             [Mtbbus_send_buf_autolen
                (if first_scan t \<or> inputs_logic_state t \<noteq> inputs_old t
                    \<or> (last_input_changed t \<and> b AND 1 = 0)
                 then frame_INPUT_CHANGED H t
                 else if mtbbus_warn_flags t \<noteq> mtbbus_warn_flags_old t
                    \<or> (last_diag_changed t \<and> b AND 1 = 0)
                 then frame_DIAG_STATE H t
                 else frame_ACK H)]"
  using assms
  by (auto simp: case_MODULE_INQUIRY_def Let_def mtbbus_send_inputs_eq mtbbus_send_ack_eq
      send_diag_value_STATE_eq frame_INPUT_CHANGED_def frame_DIAG_STATE_def input_bytes_def)

text \<open>
  The answer of the inquiry case in terms of the three flags of the code: exactly one frame,
  the input notification with the live snapshot when it is the first inquiry, the snapshot
  differs from the reported one, or \<open>last_input_changed\<close> is set and bit 0 of the poll is
  clear; otherwise the diagnostic push when the warnings differ or \<open>last_diag_changed\<close> is
  set and bit 0 is clear; otherwise the acknowledgment.
\<close>

lemma inquiry_answer_by_flags:
  assumes "initialized s" and "mosi_distinct H" and "dv_distinct H"
  shows "calls (mtbbus_received H False (MTBBUS_CMD_MOSI_MODULE_INQUIRY (mosi H)) (b # rest) s) =
           calls s @
             [Mtbbus_send_buf_autolen
                (if first_scan s \<or> inputs_logic_state s \<noteq> inputs_old s
                    \<or> (last_input_changed s \<and> b AND 1 = 0)
                 then frame_INPUT_CHANGED H s
                 else if mtbbus_warn_flags s \<noteq> mtbbus_warn_flags_old s
                    \<or> (last_diag_changed s \<and> b AND 1 = 0)
                 then frame_DIAG_STATE H s
                 else frame_ACK H)]"
  using assms
  by (simp only: mtbbus_received_initialized mosi_switch_simps mosi_label.case
      case_MODULE_INQUIRY_calls received_prologue_tracker)

text \<open>
  After an inquiry \<open>last_input_changed\<close> says whether the answer was the input
  notification, and then the snapshot sent is the one remembered as reported.
\<close>

lemma inquiry_input_slot:
  assumes "initialized s" and "mosi_distinct H" and "dv_distinct H"
  shows "let s' = mtbbus_received H False (MTBBUS_CMD_MOSI_MODULE_INQUIRY (mosi H)) (b # rest) s
         in last_input_changed s' =
              (first_scan s \<or> inputs_logic_state s \<noteq> inputs_old s
                \<or> (last_input_changed s \<and> b AND 1 = 0)) \<and>
            (last_input_changed s' \<longrightarrow> inputs_old s' = inputs_logic_state s) \<and>
            inputs_logic_state s' = inputs_logic_state s \<and> \<not> first_scan s'"
proof -
  have "let t' = case_MODULE_INQUIRY H False (b # rest) (received_prologue s)
         in last_input_changed t' =
              (first_scan s \<or> inputs_logic_state s \<noteq> inputs_old s
                \<or> (last_input_changed s \<and> b AND 1 = 0)) \<and>
            (last_input_changed t' \<longrightarrow> inputs_old t' = inputs_logic_state s) \<and>
            inputs_logic_state t' = inputs_logic_state s \<and> \<not> first_scan t'"
    using assms(3)
    by (auto simp: case_MODULE_INQUIRY_def Let_def mtbbus_send_inputs_eq mtbbus_send_ack_eq
        send_diag_value_STATE_eq received_prologue_tracker)
  with assms show ?thesis
    by (simp only: mtbbus_received_initialized mosi_switch_simps mosi_label.case)
qed

text \<open>
  No statement of the dispatcher clears \<open>last_diag_changed\<close>: once a diagnostic push was
  sent the flag stays set, whatever is received.
\<close>

lemma last_diag_changed_stays:
  assumes "last_diag_changed s"
  shows "last_diag_changed (mtbbus_received H broadcast command_code data s)"
proof -
  have d: "\<And>i t. last_diag_changed (send_diag_value H i t) = last_diag_changed t"
    subgoal for i t
      by (cases "dv_switch H i";
          simp add: send_diag_value_def buf_put_def buf_memcpy_def mtbbus_send_buf_autolen_def Let_def)
    done
  from assms show ?thesis
    by (cases "initialized s"; cases "mosi_switch H command_code";
        simp add: mtbbus_received_def Let_def received_prologue_eq d
          case_MODULE_INQUIRY_def case_INFO_REQ_def case_SET_CONFIG_def case_GET_CONFIG_def
          case_BEACON_def case_GET_INPUT_def case_SET_OUTPUT_def case_RESET_OUTPUTS_def
          case_CHANGE_ADDR_def case_CHANGE_SPEED_def case_FWUPGD_REQUEST_def case_REBOOT_def
          case_DIAG_VALUE_REQ_def INVALID_MSG_def
          mtbbus_send_ack_eq mtbbus_send_error_eq mtbbus_send_inputs_eq
          buf_put_def buf_memcpy_def mtbbus_send_buf_autolen_def mtbbus_set_speed_def
          outputs_set_zipped_def outputs_set_full_def config_boot_fwupgd_def goto_bootloader_def)
qed

text \<open>
  C1. The claim fails on four unicast inquiries after initialization, with bit 0 of the
  payload set in the first three and clear in the fourth, while inputs and warnings stay as
  they are. The answers of the code are the input notification (first inquiry), the diagnostic
  push (the warnings were never reported), the acknowledgment, and the diagnostic push again:
  at the fourth inquiry no diagnostic notification awaits acknowledgment, since the third
  inquiry acknowledged it and was answered by the plain acknowledgment, and the tracker of the
  specification answers with the acknowledgment.
\<close>

theorem inquiry_repeats_acknowledged_diag_push:
  "responses (calls (run example_headers ready
      [RECEIVED False (MTBBUS_CMD_MOSI_MODULE_INQUIRY (mosi example_headers)) [1],
       RECEIVED False (MTBBUS_CMD_MOSI_MODULE_INQUIRY (mosi example_headers)) [1],
       RECEIVED False (MTBBUS_CMD_MOSI_MODULE_INQUIRY (mosi example_headers)) [1],
       RECEIVED False (MTBBUS_CMD_MOSI_MODULE_INQUIRY (mosi example_headers)) [0]]))
     = [frame_INPUT_CHANGED example_headers ready, frame_DIAG_STATE example_headers ready,
        frame_ACK example_headers, frame_DIAG_STATE example_headers ready] \<and>
   spec_answers example_headers Idle ready [1, 1, 1, 0]
     = [Input_changed, Diag_push, Plain_ack, Plain_ack]"
  by (simp add: run_def engine_defs example_defs spec_answer_def
      frame_INPUT_CHANGED_def frame_DIAG_STATE_def frame_ACK_def input_bytes_def)

section \<open>Speed autodetection\<close>

lemma nth_speed_unat:
  assumes "speeds_ok H"
  shows "unat (nth_speed H n) = 1 + n mod unat (MTBBUS_SPEED_MAX (module H))"
proof -
  let ?M = "unat (MTBBUS_SPEED_MAX (module H))"
  have M: "1 \<le> ?M" "?M < 255"
    using assms by (simp_all add: speeds_ok_def word_le_nat_alt word_less_nat_alt)
  have k: "n mod ?M < ?M"
    using M by simp
  have "unat (of_nat (n mod ?M) :: u8) = (n mod ?M) mod 2 ^ LENGTH(8)"
    by (rule unat_of_nat)
  then have u: "unat (of_nat (n mod ?M) :: u8) = n mod ?M"
    using k M by simp
  have "nth_speed H n = 1 + of_nat (n mod ?M)"
    using assms M by (simp add: nth_speed_def speeds_ok_def)
  then have "unat (nth_speed H n) = (1 + n mod ?M) mod 2 ^ LENGTH(8)"
    by (simp add: unat_word_ariths u)
  then show ?thesis
    using k M by simp
qed



















text \<open>
  Autodetection is in progress only behind the open gate: a long press needs
  \<^verbatim>\<open>BTN_PRESS_1S\<close> ticks, more than \<^verbatim>\<open>INIT_TIME\<close>, and the pass of the main loop that starts
  the autodetection also opens the gate.
\<close>

lemma tick_gate:
  "initialized (TIMER3_COMPA_vect H m s) = initialized s"
  "init_counter (TIMER3_COMPA_vect H m s) =
     (if init_counter s < INIT_TIME then init_counter s + 1 else init_counter s)"
  "btn_press_time (TIMER3_COMPA_vect H m s) =
     (if btn_pressed s \<and> btn_press_time s < BTN_PRESS_1S then btn_press_time s + 1
      else btn_press_time s)"
  by (simp_all add: TIMER3_COMPA_vect_def Let_def)





lemma nth_speed_wraps:
  assumes "speeds_ok H"
  shows "nth_speed H (unat (MTBBUS_SPEED_MAX (module H)) - 1) = MTBBUS_SPEED_MAX (module H)"
    and "nth_speed H (unat (MTBBUS_SPEED_MAX (module H))) = MTBBUS_SPEED_38400 (module H)"
proof -
  let ?M = "unat (MTBBUS_SPEED_MAX (module H))"
  have M: "1 \<le> ?M" "?M < 255"
    using assms by (simp_all add: speeds_ok_def word_le_nat_alt word_less_nat_alt)
  have "unat (nth_speed H (?M - 1)) = ?M"
    using M by (simp add: nth_speed_unat [OF assms])
  then show "nth_speed H (?M - 1) = MTBBUS_SPEED_MAX (module H)"
    by (simp add: word_unat_eq_iff)
  have "unat (nth_speed H ?M) = 1"
    by (simp add: nth_speed_unat [OF assms])
  then show "nth_speed H ?M = MTBBUS_SPEED_38400 (module H)"
    using assms by (simp add: word_unat_eq_iff speeds_ok_def)
qed





section \<open>The button\<close>

text \<open>What an event other than a button event does to the button's variables.\<close>

lemma main_loop_pass_btn:
  "btn_pressed (main_loop_pass H s) = btn_pressed s"
  "btn_press_time (main_loop_pass H s) =
     (if btn_press_time s = BTN_PRESS_1S then 0xFF else btn_press_time s)"
  "btn_fired (main_loop_pass H s) =
     (if btn_press_time s = BTN_PRESS_1S then btn_fired s @ [Long_press] else btn_fired s)"
  by (simp_all add: main_loop_pass_def main_btn_check_def main_auto_speed_check_def
      main_init_check_def on_initialized_def btn_long_press_def autodetect_mtbbus_speed_def
      mtbbus_auto_speed_next_def mtbbus_set_speed_def Let_def)

lemma tick_btn:
  "btn_pressed (TIMER3_COMPA_vect H m s) = btn_pressed s"
  "btn_fired (TIMER3_COMPA_vect H m s) = btn_fired s"
  by (simp_all add: TIMER3_COMPA_vect_def Let_def)

lemma of_nat_u8_less:
  assumes "k < 256"
  shows "unat (of_nat k :: u8) = k"
proof -
  have "unat (of_nat k :: u8) = k mod 2 ^ LENGTH(8)"
    by (rule unat_of_nat)
  with assms show ?thesis by simp
qed

text \<open>
  While the button is held, after \<open>k\<close> ticks: below the threshold the time is \<open>k\<close> and
  nothing has fired; from the threshold on either the time stands at the threshold and nothing
  has fired, or the time is latched at 0xFF and the long press has fired once.
\<close>

lemma button_held:
  assumes "\<forall>e \<in> set es. \<not> is_button e" and "btn_pressed s" and "btn_press_time s = 0"
  shows "btn_pressed (run H s es) \<and>
         (if ticks es < 100
          then btn_press_time (run H s es) = of_nat (ticks es) \<and> btn_fired (run H s es) = btn_fired s
          else (btn_press_time (run H s es) = BTN_PRESS_1S \<and> btn_fired (run H s es) = btn_fired s) \<or>
               (btn_press_time (run H s es) = 0xFF \<and>
                btn_fired (run H s es) = btn_fired s @ [Long_press]))"
  using assms(1)
proof (induction es rule: rev_induct)
  case Nil
  then show ?case
    by (simp add: run_Nil ticks_def assms)
next
  case (snoc e es)
  let ?r = "run H s es"
  from snoc have p: "btn_pressed ?r" by simp
  from snoc.prems have nb: "\<not> is_button e" by simp
  show ?case
  proof (cases "ticks es < 100")
    case True
    with snoc have ih: "btn_press_time ?r = of_nat (ticks es)" "btn_fired ?r = btn_fired s"
      by simp_all
    have u: "unat (of_nat (ticks es) :: u8) = ticks es"
      using True by (simp add: of_nat_u8_less)
    show ?thesis
    proof (cases e)
      case (TIMER3 m)
      have t: "ticks (es @ [e]) = Suc (ticks es)"
        using TIMER3 by (simp add: ticks_def)
      have "(of_nat (ticks es) :: u8) < BTN_PRESS_1S"
        using True u by (simp add: word_less_nat_alt BTN_PRESS_1S_def)
      then have n: "btn_press_time (run H s (es @ [e])) = of_nat (Suc (ticks es))"
        using TIMER3 p ih by (simp add: run_snoc tick_gate)
      have f: "btn_fired (run H s (es @ [e])) = btn_fired s"
        "btn_pressed (run H s (es @ [e]))"
        using TIMER3 p ih by (simp_all add: run_snoc tick_btn)
      show ?thesis
      proof (cases "Suc (ticks es) < 100")
        case True
        then show ?thesis using n f t by simp
      next
        case False
        with True have "Suc (ticks es) = 100" by simp
        then show ?thesis using n f t by (simp add: BTN_PRESS_1S_def)
      qed
    next
      case MAIN_LOOP
      have "(of_nat (ticks es) :: u8) \<noteq> BTN_PRESS_1S"
        using True u by (auto simp: word_unat_eq_iff BTN_PRESS_1S_def)
      then show ?thesis
        using MAIN_LOOP True p ih by (simp add: run_snoc main_loop_pass_btn ticks_def)
    next
      case BTN_DOWN
      with nb show ?thesis by simp
    next
      case BTN_UP
      with nb show ?thesis by simp
    next
      case (RECEIVED b c d)
      then show ?thesis
        using True p ih by (simp add: run_snoc mtbbus_received_keeps ticks_def)
    qed
  next
    case False
    with snoc have ih: "(btn_press_time ?r = BTN_PRESS_1S \<and> btn_fired ?r = btn_fired s) \<or>
               (btn_press_time ?r = 0xFF \<and> btn_fired ?r = btn_fired s @ [Long_press])"
      by simp
    have t: "\<not> ticks (es @ [e]) < 100"
      using False by (simp add: ticks_def)
    show ?thesis
    proof (cases e)
      case (TIMER3 m)
      then show ?thesis
        using t p ih by (auto simp: run_snoc tick_gate tick_btn BTN_PRESS_1S_def)
    next
      case MAIN_LOOP
      then show ?thesis
        using t p ih by (auto simp: run_snoc main_loop_pass_btn BTN_PRESS_1S_def)
    next
      case BTN_DOWN
      with nb show ?thesis by simp
    next
      case BTN_UP
      with nb show ?thesis by simp
    next
      case (RECEIVED b c d)
      then show ?thesis
        using t p ih by (simp add: run_snoc mtbbus_received_keeps)
    qed
  qed
qed


text \<open>
  From the threshold on, whether the button is still held or not: the long press fires at the
  next pass of the main loop, once, and the time stays latched.
\<close>

lemma button_threshold_reached:
  assumes "\<forall>e \<in> set fs. \<not> is_button e"
    and "(btn_press_time s = BTN_PRESS_1S \<and> btn_fired s = F) \<or>
         (btn_press_time s = 0xFF \<and> btn_fired s = F @ [Long_press])"
  shows "(btn_press_time (run H s fs) = BTN_PRESS_1S \<and> btn_fired (run H s fs) = F \<and>
          MAIN_LOOP \<notin> set fs \<and> btn_press_time s = BTN_PRESS_1S) \<or>
         (btn_press_time (run H s fs) = 0xFF \<and> btn_fired (run H s fs) = F @ [Long_press])"
  using assms(1)
proof (induction fs rule: rev_induct)
  case Nil
  then show ?case
    using assms(2) by (auto simp: run_Nil BTN_PRESS_1S_def)
next
  case (snoc e fs)
  then have ih: "(btn_press_time (run H s fs) = BTN_PRESS_1S \<and> btn_fired (run H s fs) = F \<and>
          MAIN_LOOP \<notin> set fs \<and> btn_press_time s = BTN_PRESS_1S) \<or>
         (btn_press_time (run H s fs) = 0xFF \<and> btn_fired (run H s fs) = F @ [Long_press])"
    by simp
  from snoc.prems have nb: "\<not> is_button e" by simp
  show ?case
  proof (cases e)
    case (TIMER3 m)
    then show ?thesis
      using ih by (auto simp: run_snoc tick_gate tick_btn BTN_PRESS_1S_def)
  next
    case MAIN_LOOP
    then show ?thesis
      using ih by (auto simp: run_snoc main_loop_pass_btn BTN_PRESS_1S_def)
  next
    case BTN_DOWN
    with nb show ?thesis by simp
  next
    case BTN_UP
    with nb show ?thesis by simp
  next
    case (RECEIVED b c d)
    then show ?thesis
      using ih by (simp add: run_snoc mtbbus_received_keeps)
  qed
qed

text \<open>After a release below the threshold nothing more fires.\<close>

lemma button_released_early:
  assumes "\<forall>e \<in> set fs. \<not> is_button e"
    and "\<not> btn_pressed s" and "btn_press_time s < BTN_PRESS_1S"
  shows "\<not> btn_pressed (run H s fs) \<and> btn_press_time (run H s fs) = btn_press_time s \<and>
         btn_fired (run H s fs) = btn_fired s"
  using assms(1)
proof (induction fs rule: rev_induct)
  case Nil
  then show ?case
    using assms(2) by (simp add: run_Nil)
next
  case (snoc e fs)
  then have ih: "\<not> btn_pressed (run H s fs)" "btn_press_time (run H s fs) = btn_press_time s"
    "btn_fired (run H s fs) = btn_fired s"
    by simp_all
  from snoc.prems have nb: "\<not> is_button e" by simp
  from assms(3) have ne: "btn_press_time s \<noteq> BTN_PRESS_1S" by auto
  show ?case
  proof (cases e)
    case (TIMER3 m)
    then show ?thesis
      using ih by (simp add: run_snoc tick_gate tick_btn)
  next
    case MAIN_LOOP
    then show ?thesis
      using ih ne by (simp add: run_snoc main_loop_pass_btn)
  next
    case BTN_DOWN
    with nb show ?thesis by simp
  next
    case BTN_UP
    with nb show ?thesis by simp
  next
    case (RECEIVED b c d)
    then show ?thesis
      using ih by (simp add: run_snoc mtbbus_received_keeps)
  qed
qed

lemma step_BTN_DOWN:
  "btn_pressed (step H s BTN_DOWN)" "btn_press_time (step H s BTN_DOWN) = 0"
  "btn_fired (step H s BTN_DOWN) = btn_fired s"
  by (simp_all add: btn_on_pressed_def)

lemma step_BTN_UP:
  "\<not> btn_pressed (step H s BTN_UP)" "btn_press_time (step H s BTN_UP) = btn_press_time s"
  "btn_fired (step H s BTN_UP) =
     (if btn_press_time s < BTN_PRESS_1S then btn_fired s @ [Short_press] else btn_fired s)"
  by (simp_all add: btn_on_depressed_def btn_short_press_def autodetect_mtbbus_speed_stop_def
      led_red_ok_def update_mtbbus_polarity_def Let_def)

text \<open>
  C8. A press, events \<open>es\<close> while the button is held, the release, and events \<open>fs\<close> after
  it, none of them a button event; the threshold is \<^verbatim>\<open>BTN_PRESS_1S\<close> = 100 ticks.

  \<^item> Fewer than 100 ticks while held: nothing fires while held, and after the release
    exactly the short press has fired, whatever follows.
  \<^item> At least 100 ticks while held: no short press fires, and the long press fires at most
    once, namely at the first pass of the main loop after the 100th tick; so it has fired
    exactly once while held when such a pass occurs while held, however long the button is held
    on, and it has fired exactly once in all when a pass occurs after the release.
\<close>

theorem button_press_cycle:
  assumes "\<forall>e \<in> set es. \<not> is_button e" and "\<forall>e \<in> set fs. \<not> is_button e"
  shows "(ticks es < 100 \<longrightarrow>
            btn_fired (run H s (BTN_DOWN # es)) = btn_fired s \<and>
            btn_fired (run H s (BTN_DOWN # es @ BTN_UP # fs)) = btn_fired s @ [Short_press]) \<and>
         (100 \<le> ticks es \<longrightarrow>
            (btn_fired (run H s (BTN_DOWN # es)) = btn_fired s \<or>
             btn_fired (run H s (BTN_DOWN # es)) = btn_fired s @ [Long_press]) \<and>
            btn_fired (run H s (BTN_DOWN # es @ [BTN_UP])) = btn_fired (run H s (BTN_DOWN # es)) \<and>
            (btn_fired (run H s (BTN_DOWN # es @ BTN_UP # fs)) = btn_fired s \<or>
             btn_fired (run H s (BTN_DOWN # es @ BTN_UP # fs)) = btn_fired s @ [Long_press]) \<and>
            (MAIN_LOOP \<in> set fs \<longrightarrow>
               btn_fired (run H s (BTN_DOWN # es @ BTN_UP # fs)) = btn_fired s @ [Long_press])) \<and>
         (es = es1 @ MAIN_LOOP # es2 \<and> 100 \<le> ticks es1 \<longrightarrow>
            btn_fired (run H s (BTN_DOWN # es)) = btn_fired s @ [Long_press] \<and>
            btn_fired (run H s (BTN_DOWN # es @ BTN_UP # fs)) = btn_fired s @ [Long_press])"
proof -
  let ?d = "step H s BTN_DOWN"
  let ?h = "run H ?d es"
  let ?u = "step H ?h BTN_UP"
  have r: "run H s (BTN_DOWN # es) = ?h" "run H s (BTN_DOWN # es @ [BTN_UP]) = ?u"
    "run H s (BTN_DOWN # es @ BTN_UP # fs) = run H ?u fs"
    by (simp_all add: run_Cons run_append run_Nil del: step.simps)
  note h = button_held [of es "step H s BTN_DOWN" H, OF assms(1) step_BTN_DOWN(1,2)]
  have short: "btn_fired ?h = btn_fired s \<and> btn_fired (run H ?u fs) = btn_fired s @ [Short_press]"
    if lt: "ticks es < 100"
  proof -
    from h lt have t: "btn_press_time ?h = of_nat (ticks es)" and f: "btn_fired ?h = btn_fired s"
      by (simp_all add: step_BTN_DOWN del: step.simps)
    have "unat (of_nat (ticks es) :: u8) = ticks es"
      using lt by (simp add: of_nat_u8_less)
    with t lt have b: "btn_press_time ?h < BTN_PRESS_1S"
      by (simp add: word_less_nat_alt BTN_PRESS_1S_def del: step.simps)
    then have "btn_press_time ?u < BTN_PRESS_1S" "btn_fired ?u = btn_fired s @ [Short_press]"
      using f by (simp_all add: step_BTN_UP del: step.simps)
    with button_released_early [of fs "step H (run H (step H s BTN_DOWN) es) BTN_UP" H,
        OF assms(2) step_BTN_UP(1)] f show ?thesis
      by (simp del: step.simps)
  qed
  have reached: "(btn_press_time ?h = BTN_PRESS_1S \<and> btn_fired ?h = btn_fired s) \<or>
      (btn_press_time ?h = 0xFF \<and> btn_fired ?h = btn_fired s @ [Long_press])"
    if ge: "100 \<le> ticks es"
    using h ge by (simp add: step_BTN_DOWN del: step.simps)
  have long: "(btn_fired ?h = btn_fired s \<or> btn_fired ?h = btn_fired s @ [Long_press]) \<and>
      btn_fired ?u = btn_fired ?h \<and>
      (btn_fired (run H ?u fs) = btn_fired s \<or> btn_fired (run H ?u fs) = btn_fired s @ [Long_press]) \<and>
      (MAIN_LOOP \<in> set fs \<longrightarrow> btn_fired (run H ?u fs) = btn_fired s @ [Long_press])"
    if ge: "100 \<le> ticks es"
  proof -
    note a = reached [OF ge]
    then have n: "\<not> btn_press_time ?h < BTN_PRESS_1S"
      by (auto simp: BTN_PRESS_1S_def simp del: step.simps)
    then have u: "btn_fired ?u = btn_fired ?h" "btn_press_time ?u = btn_press_time ?h"
      by (simp_all add: step_BTN_UP del: step.simps)
    with a have "(btn_press_time ?u = BTN_PRESS_1S \<and> btn_fired ?u = btn_fired s) \<or>
      (btn_press_time ?u = 0xFF \<and> btn_fired ?u = btn_fired s @ [Long_press])"
      by (simp del: step.simps)
    from button_threshold_reached [OF assms(2) this, of H] a u show ?thesis
      by (auto simp del: step.simps)
  qed
  have during: "btn_fired ?h = btn_fired s @ [Long_press] \<and>
      btn_fired (run H ?u fs) = btn_fired s @ [Long_press]"
    if e: "es = es1 @ MAIN_LOOP # es2" and ge: "100 \<le> ticks es1"
  proof -
    from assms(1) e have nb: "\<forall>e \<in> set es1. \<not> is_button e" "\<forall>e \<in> set (MAIN_LOOP # es2). \<not> is_button e"
      by simp_all
    from button_held [of es1 "step H s BTN_DOWN" H, OF nb(1) step_BTN_DOWN(1,2)] ge
    have "(btn_press_time (run H ?d es1) = BTN_PRESS_1S \<and> btn_fired (run H ?d es1) = btn_fired s) \<or>
      (btn_press_time (run H ?d es1) = 0xFF \<and> btn_fired (run H ?d es1) = btn_fired s @ [Long_press])"
      by (simp add: step_BTN_DOWN del: step.simps)
    from button_threshold_reached [OF nb(2) this, of H]
    have l: "btn_press_time ?h = 0xFF \<and> btn_fired ?h = btn_fired s @ [Long_press]"
      by (simp add: e run_append del: step.simps)
    then have lu: "btn_press_time ?u = 0xFF \<and> btn_fired ?u = btn_fired s @ [Long_press]"
      by (simp add: step_BTN_UP BTN_PRESS_1S_def del: step.simps)
    then have "(btn_press_time ?u = BTN_PRESS_1S \<and> btn_fired ?u = btn_fired s) \<or>
      (btn_press_time ?u = 0xFF \<and> btn_fired ?u = btn_fired s @ [Long_press])"
      by (simp del: step.simps)
    from button_threshold_reached [OF assms(2) this, of H] l lu show ?thesis
      by (simp add: BTN_PRESS_1S_def del: step.simps)
  qed
  from short long during show ?thesis
    unfolding r by blast
qed


theorem button_press_cycle_witness:
  "btn_fired (run example_headers ready
      (BTN_DOWN # [TIMER3 False, MAIN_LOOP, TIMER3 True] @ BTN_UP # [MAIN_LOOP, TIMER3 False]))
     = [Short_press] \<and>
   btn_fired (run example_headers ready
      (BTN_DOWN # (replicate 100 (TIMER3 False) @ MAIN_LOOP # replicate 30 (TIMER3 False) @ [MAIN_LOOP])))
     = [Long_press] \<and>
   btn_fired (run example_headers ready
      (BTN_DOWN # (replicate 100 (TIMER3 False) @ MAIN_LOOP # replicate 30 (TIMER3 False) @ [MAIN_LOOP])
         @ BTN_UP # [MAIN_LOOP, TIMER3 False]))
     = [Long_press]"
proof -
  have f: "btn_fired ready = []"
    by (simp add: example_defs)
  have short: "btn_fired (run example_headers ready
      (BTN_DOWN # [TIMER3 False, MAIN_LOOP, TIMER3 True] @ BTN_UP # [MAIN_LOOP, TIMER3 False]))
     = [Short_press]"
    using button_press_cycle [where es = "[TIMER3 False, MAIN_LOOP, TIMER3 True]"
        and fs = "[MAIN_LOOP, TIMER3 False]" and H = example_headers and s = ready]
    by (simp add: ticks_def f)
  have long: "btn_fired (run example_headers ready
      (BTN_DOWN # (replicate 100 (TIMER3 False) @ MAIN_LOOP # replicate 30 (TIMER3 False) @ [MAIN_LOOP])))
     = [Long_press] \<and>
   btn_fired (run example_headers ready
      (BTN_DOWN # (replicate 100 (TIMER3 False) @ MAIN_LOOP # replicate 30 (TIMER3 False) @ [MAIN_LOOP])
         @ BTN_UP # [MAIN_LOOP, TIMER3 False]))
     = [Long_press]"
    using button_press_cycle
      [where es = "replicate 100 (TIMER3 False) @ MAIN_LOOP # replicate 30 (TIMER3 False) @ [MAIN_LOOP]"
        and fs = "[MAIN_LOOP, TIMER3 False]" and H = example_headers and s = ready
        and ?es1.0 = "replicate 100 (TIMER3 False)"
        and ?es2.0 = "replicate 30 (TIMER3 False) @ [MAIN_LOOP]"]
    by (simp add: ticks_def f)
  from short long show ?thesis
    by simp
qed

end
